theory Spec2Isabelle
  imports Main "HOL-Library.Word"
begin

section \<open>Go values used by the adaptor\<close>

text \<open>
  A Go \<^verbatim>\<open>error\<close> is either a plain message (\<^verbatim>\<open>errors.New\<close>, or \<^verbatim>\<open>fmt.Errorf\<close> without
  \<^verbatim>\<open>%w\<close>) or a message prefix around a wrapped cause (\<^verbatim>\<open>fmt.Errorf("prefix: %w", err)\<close>).
  \<open>Error\<close> is the method \<^verbatim>\<open>Error()\<close>, \<open>Unwrap\<close> is \<^verbatim>\<open>errors.Unwrap\<close>.
\<close>

datatype go_error = ErrorString string | WrapError string go_error

fun Error :: "go_error \<Rightarrow> string" where
  "Error (ErrorString m) = m"
| "Error (WrapError p e) = p @ Error e"

fun Unwrap :: "go_error \<Rightarrow> go_error option" where
  "Unwrap (ErrorString m) = None"
| "Unwrap (WrapError p e) = Some e"

text \<open>A \<^verbatim>\<open>float64\<close> is its 64 IEEE-754 bits; the zero value is \<open>0\<close>.\<close>

type_synonym float64 = "64 word"

text \<open>
  A \<^verbatim>\<open>time.Time\<close>: nanoseconds since the Unix epoch and the zone offset in seconds.
  \<open>Unix\<close> is \<^verbatim>\<open>t.Unix()\<close>, \<open>Add\<close> is \<^verbatim>\<open>t.Add(d)\<close> for a duration in nanoseconds.
\<close>

record Time =
  unix_nano :: int
  zone_offset :: int

definition Unix :: "Time \<Rightarrow> int" where
  "Unix t = unix_nano t div 1000000000"

definition Add :: "Time \<Rightarrow> int \<Rightarrow> Time" where
  "Add t d = t\<lparr>unix_nano := unix_nano t + d\<rparr>"

definition Hour :: int where
  "Hour = 3600 * 1000000000"

definition RFC3339 :: string where
  "RFC3339 = ''2006-01-02T15:04:05Z07:00''"

text \<open>Go's \<^verbatim>\<open>%\<close> on integers truncates towards zero.\<close>

definition go_rem :: "int \<Rightarrow> int \<Rightarrow> int" where
  "go_rem a b = (if a < 0 then - ((- a) mod \<bar>b\<bar>) else a mod \<bar>b\<bar>)"

text \<open>Decimal digits of a natural number, as \<^verbatim>\<open>%d\<close> prints them.\<close>

fun digits :: "nat \<Rightarrow> string" where
  "digits n = (if n < 10 then [''0123456789'' ! n]
               else digits (n div 10) @ [''0123456789'' ! (n mod 10)])"

declare digits.simps [simp del]

text \<open>\<^verbatim>\<open>fmt.Sprintf("%d", i)\<close>.\<close>

definition Sprintf_d :: "int \<Rightarrow> string" where
  "Sprintf_d i = (if i < 0 then CHR ''-'' # digits (nat (- i)) else digits (nat i))"

text \<open>
  \<^verbatim>\<open>fmt.Sprintf("%0<wid>d", i)\<close>: the digits are padded with zeros up to the width, and
  a minus sign takes one column of the width.
\<close>

definition Sprintf_0d :: "nat \<Rightarrow> int \<Rightarrow> string" where
  "Sprintf_0d wid i =
     (let ds = digits (nat \<bar>i\<bar>);
          prec = (if i < 0 then wid - 1 else wid)
      in (if i < 0 then ''-'' else '''') @ replicate (prec - length ds) CHR ''0'' @ ds)"

section \<open>The data model (internal/models/models.go)\<close>

record MaintenanceOperation =
  op_Text :: string
  op_WorkCenter :: string
  op_Duration :: float64
  op_DurationUnit :: string

record MaintenanceOrderEvent =
  ev_EquipmentID :: string
  ev_FunctionalLocation :: string
  ev_Plant :: string
  ev_Description :: string
  ev_Priority :: string
  ev_MaintenanceOrderType :: string
  ev_PlannedStartTime :: "Time option"
  ev_PlannedEndTime :: "Time option"
  ev_Operations :: "MaintenanceOperation list"

record MaintenanceOrderResponse =
  mor_OrderID :: string
  mor_NotificationID :: string
  mor_Status :: string
  mor_Message :: string
  mor_CreatedAt :: Time

record OperationStatus =
  os_OperationID :: string
  os_Text :: string
  os_Status :: string
  os_ActualWorkQuantity :: float64
  os_WorkQuantityUnit :: string

record MaintenanceOrderStatus =
  mos_OrderID :: string
  mos_Status :: string
  mos_Description :: string
  mos_EquipmentID :: string
  mos_Plant :: string
  mos_NotificationID :: string
  mos_ActualStartTime :: "Time option"
  mos_ActualEndTime :: "Time option"
  mos_Operations :: "OperationStatus list"

record SAPNotificationRequest =
  nrq_NotificationType :: string
  nrq_Description :: string
  nrq_Equipment :: string
  nrq_FunctionalLocation :: string
  nrq_Plant :: string
  nrq_Priority :: string

text \<open>The struct \<^verbatim>\<open>D\<close> of \<^verbatim>\<open>SAPNotificationResponse\<close>.\<close>

record SAPNotificationResponse =
  nrs_Notification :: string
  nrs_Description :: string
  nrs_Plant :: string

record SAPOrderOperation =
  oop_OperationText :: string
  oop_WorkCenter :: string
  oop_Plant :: string
  oop_OperationControlKey :: string
  oop_OperationStandardDuration :: string
  oop_OperationDurationUnit :: string

record SAPOrderRequest =
  orq_MaintenanceOrderType :: string
  orq_Description :: string
  orq_Equipment :: string
  orq_FunctionalLocation :: string
  orq_Plant :: string
  orq_MaintenancePlanningPlant :: string
  orq_Priority :: string
  orq_MaintOrdBasicStartDateTime :: string
  orq_MaintOrdBasicEndDateTime :: string
  orq_MaintenanceNotification :: string
  orq_ToMaintenanceOrderOperation :: "SAPOrderOperation list"

record Metadata =
  md_ID :: string
  md_URI :: string
  md_Type :: string

record SAPOrderOperationResponse =
  opr_MaintenanceOrder :: string
  opr_MaintenanceOrderOperation :: string
  opr_OperationText :: string
  opr_WorkCenter :: string
  opr_OperationControlKey :: string
  opr_OperationStandardDuration :: string
  opr_OperationDurationUnit :: string
  opr_OperationStatus :: string
  opr_ActualWorkQuantity :: string
  opr_WorkQuantityUnit :: string
  opr_Metadata :: Metadata

text \<open>The struct \<^verbatim>\<open>D\<close> of \<^verbatim>\<open>SAPOrderResponse\<close>.\<close>

record SAPOrderResponse =
  ors_MaintenanceOrder :: string
  ors_MaintenanceOrderType :: string
  ors_Description :: string
  ors_Equipment :: string
  ors_Plant :: string
  ors_OrderStatus :: string
  ors_MaintOrdBasicStartDateTime :: string
  ors_MaintOrdBasicEndDateTime :: string
  ors_MaintenanceNotification :: string
  ors_Metadata :: Metadata
  ors_Results :: "SAPOrderOperationResponse list"

record ErrorResponse =
  er_Error :: string
  er_Code :: string
  er_Details :: "string option"

section \<open>Configuration (internal/config/config.go)\<close>

record SAPConfig =
  cfg_BaseURL :: string
  cfg_Username :: string
  cfg_Password :: string
  cfg_ClientID :: string
  cfg_ClientSecret :: string
  cfg_TokenURL :: string
  cfg_Timeout :: int
  cfg_SimulatorMode :: bool

section \<open>What lies outside the program\<close>

text \<open>
  Functions of the Go standard library that the adaptor calls, taken as parameters:
  \<^verbatim>\<open>time.Time.Format\<close>, \<^verbatim>\<open>time.Parse\<close>, \<^verbatim>\<open>strconv.FormatFloat\<close> (value, format byte,
  precision, bit size), \<^verbatim>\<open>strconv.ParseFloat\<close>, \<^verbatim>\<open>json.Marshal\<close> and \<^verbatim>\<open>json.Unmarshal\<close>
  at the types used, and the validity check of \<^verbatim>\<open>http.NewRequestWithContext\<close> (method, URL).
\<close>

record Lib =
  time_Format :: "Time \<Rightarrow> string \<Rightarrow> string"
  time_Parse :: "string \<Rightarrow> string \<Rightarrow> go_error + Time"
  FormatFloat :: "float64 \<Rightarrow> char \<Rightarrow> int \<Rightarrow> nat \<Rightarrow> string"
  ParseFloat :: "string \<Rightarrow> nat \<Rightarrow> go_error + float64"
  Marshal_notification :: "SAPNotificationRequest \<Rightarrow> go_error + string"
  Marshal_order :: "SAPOrderRequest \<Rightarrow> go_error + string"
  Unmarshal_notification :: "string \<Rightarrow> go_error + SAPNotificationResponse"
  Unmarshal_order :: "string \<Rightarrow> go_error + SAPOrderResponse"
  NewRequest_check :: "string \<Rightarrow> string \<Rightarrow> go_error option"

record http_request =
  rq_method :: string
  rq_url :: string
  rq_body :: "string option"
  rq_header :: "(string \<times> string) list"

text \<open>\<^verbatim>\<open>Header.Set\<close>: the key's earlier values are replaced.\<close>

definition Header_Set :: "string \<Rightarrow> string \<Rightarrow> http_request \<Rightarrow> http_request" where
  "Header_Set k v r = r\<lparr>rq_header := filter (\<lambda>kv. fst kv \<noteq> k) (rq_header r) @ [(k, v)]\<rparr>"

text \<open>
  What \<^verbatim>\<open>httpClient.Do\<close> followed by \<^verbatim>\<open>io.ReadAll(resp.Body)\<close> can give: the send fails,
  the read of the body fails, or a status code and a body arrive.
\<close>

datatype http_outcome = DoFailed go_error | ReadAllFailed go_error | Replied int string

text \<open>
  The environment: the clock and the back end behind the HTTP transport, both acting on
  an external state \<open>'e\<close> of their own.
\<close>

record 'e Env =
  time_Now :: "'e \<Rightarrow> Time \<times> 'e"
  http_Do :: "http_request \<Rightarrow> 'e \<Rightarrow> http_outcome \<times> 'e"

text \<open>A call of one of the client's three operations, with what it returned.\<close>

datatype gateway_call =
    CalledCreateNotification SAPNotificationRequest "go_error + SAPNotificationResponse"
  | CalledCreateOrder SAPOrderRequest "go_error + SAPOrderResponse"
  | CalledGetOrder string "go_error + SAPOrderResponse"

text \<open>
  The state threaded through the program: the external state, the error of the context
  once it is cancelled (\<^verbatim>\<open>ctx.Err()\<close>, \<open>None\<close> while it is live), and three histories kept for
  the statements below: the HTTP requests sent, the client operations called, and the
  invocations of the monitoring callback, each with the context's error at that moment.
\<close>

record 'e world =
  ext :: 'e
  ctx_err :: "go_error option"
  sent :: "http_request list"
  calls :: "gateway_call list"
  handled :: "(MaintenanceOrderStatus \<times> go_error option) list"

definition now :: "'e Env \<Rightarrow> 'e world \<Rightarrow> Time \<times> 'e world" where
  "now env w = (case time_Now env (ext w) of (t, e') \<Rightarrow> (t, w\<lparr>ext := e'\<rparr>))"

definition do_http :: "'e Env \<Rightarrow> http_request \<Rightarrow> 'e world \<Rightarrow> http_outcome \<times> 'e world" where
  "do_http env rq w =
     (case http_Do env rq (ext w) of (out, e') \<Rightarrow> (out, w\<lparr>ext := e', sent := sent w @ [rq]\<rparr>))"

definition called :: "gateway_call \<Rightarrow> 'e world \<Rightarrow> 'e world" where
  "called c w = w\<lparr>calls := calls w @ [c]\<rparr>"

section \<open>The SAP client (package sap)\<close>

record Client =
  cl_config :: SAPConfig
  cl_simulatorMode :: bool

definition NewClient :: "SAPConfig \<Rightarrow> Client" where
  "NewClient cfg =
     \<lparr>cl_config = cfg,
      cl_simulatorMode = (cfg_SimulatorMode cfg \<or> cfg_BaseURL cfg = '''' \<or> cfg_BaseURL cfg = ''simulator'')\<rparr>"

subsection \<open>Simulator responses\<close>

definition createMockNotificationResponse ::
  "'e Env \<Rightarrow> SAPNotificationRequest \<Rightarrow> 'e world \<Rightarrow> SAPNotificationResponse \<times> 'e world" where
  "createMockNotificationResponse env req w =
     (case now env w of (t, w1) \<Rightarrow>
        (let notificationID = ''200000'' @ Sprintf_0d 3 (go_rem (Unix t) 1000)
         in (\<lparr>nrs_Notification = notificationID,
              nrs_Description = nrq_Description req,
              nrs_Plant = nrq_Plant req\<rparr>, w1)))"

definition operation_uri :: "string \<Rightarrow> string \<Rightarrow> string" where
  "operation_uri orderID operationID =
     ''.../A_MaintenanceOrderOperation(MaintenanceOrder='' @ [CHR 0x27] @ orderID @ [CHR 0x27]
       @ '',MaintenanceOrderOperation='' @ [CHR 0x27] @ operationID @ [CHR 0x27] @ '')''"

definition order_uri :: "string \<Rightarrow> string" where
  "order_uri orderID = ''.../A_MaintenanceOrder('' @ [CHR 0x27] @ orderID @ [CHR 0x27] @ '')''"

text \<open>The loop over \<^verbatim>\<open>req.ToMaintenanceOrderOperation\<close>, with its index \<open>i\<close>.\<close>

fun mock_operations :: "string \<Rightarrow> nat \<Rightarrow> SAPOrderOperation list \<Rightarrow> SAPOrderOperationResponse list" where
  "mock_operations orderID i [] = []"
| "mock_operations orderID i (op # ops) =
     (let operationID = Sprintf_0d 4 ((int i + 1) * 10)
      in \<lparr>opr_MaintenanceOrder = orderID,
          opr_MaintenanceOrderOperation = operationID,
          opr_OperationText = oop_OperationText op,
          opr_WorkCenter = oop_WorkCenter op,
          opr_OperationControlKey = oop_OperationControlKey op,
          opr_OperationStandardDuration = oop_OperationStandardDuration op,
          opr_OperationDurationUnit = oop_OperationDurationUnit op,
          opr_OperationStatus = '''',
          opr_ActualWorkQuantity = '''',
          opr_WorkQuantityUnit = '''',
          opr_Metadata =
            \<lparr>md_ID = operation_uri orderID operationID,
             md_URI = operation_uri orderID operationID,
             md_Type = ''API_MAINTENANCE_ORDER.A_MaintenanceOrderOperationType''\<rparr>\<rparr>
         # mock_operations orderID (Suc i) ops)"

definition createMockOrderResponse ::
  "'e Env \<Rightarrow> SAPOrderRequest \<Rightarrow> 'e world \<Rightarrow> SAPOrderResponse \<times> 'e world" where
  "createMockOrderResponse env req w =
     (case now env w of (t, w1) \<Rightarrow>
        (let orderID = ''400000'' @ Sprintf_0d 3 (go_rem (Unix t) 1000)
         in (\<lparr>ors_MaintenanceOrder = orderID,
              ors_MaintenanceOrderType = orq_MaintenanceOrderType req,
              ors_Description = orq_Description req,
              ors_Equipment = orq_Equipment req,
              ors_Plant = orq_Plant req,
              ors_OrderStatus = ''CRTD'',
              ors_MaintOrdBasicStartDateTime = orq_MaintOrdBasicStartDateTime req,
              ors_MaintOrdBasicEndDateTime = orq_MaintOrdBasicEndDateTime req,
              ors_MaintenanceNotification = orq_MaintenanceNotification req,
              ors_Metadata =
                \<lparr>md_ID = order_uri orderID, md_URI = order_uri orderID,
                 md_Type = ''API_MAINTENANCE_ORDER.A_MaintenanceOrderType''\<rparr>,
              ors_Results = mock_operations orderID 0 (orq_ToMaintenanceOrderOperation req)\<rparr>, w1)))"

text \<open>The \<^verbatim>\<open>switch\<close> on the last byte of the order id; \<^verbatim>\<open>CRTD\<close> is the default.\<close>

definition mock_status :: "string \<Rightarrow> string" where
  "mock_status orderID =
     (if length orderID > 0 then
        (let lastDigit = orderID ! (length orderID - 1)
         in if lastDigit = CHR ''0'' \<or> lastDigit = CHR ''1'' \<or> lastDigit = CHR ''2'' then ''CRTD''
            else if lastDigit = CHR ''3'' \<or> lastDigit = CHR ''4'' \<or> lastDigit = CHR ''5'' then ''REL''
            else if lastDigit = CHR ''6'' \<or> lastDigit = CHR ''7'' \<or> lastDigit = CHR ''8'' then ''TECO''
            else if lastDigit = CHR ''9'' then ''CLSD''
            else ''CRTD'')
      else ''CRTD'')"

definition createMockOrderStatusResponse ::
  "Lib \<Rightarrow> 'e Env \<Rightarrow> string \<Rightarrow> 'e world \<Rightarrow> SAPOrderResponse \<times> 'e world" where
  "createMockOrderStatusResponse lib env orderID w =
     (let status = mock_status orderID in
      case now env w of (t1, w1) \<Rightarrow>
      case now env w1 of (t2, w2) \<Rightarrow>
        (\<lparr>ors_MaintenanceOrder = orderID,
          ors_MaintenanceOrderType = ''PM01'',
          ors_Description = ''Mock maintenance order'',
          ors_Equipment = ''10000045'',
          ors_Plant = ''1000'',
          ors_OrderStatus = status,
          ors_MaintOrdBasicStartDateTime = time_Format lib t1 RFC3339,
          ors_MaintOrdBasicEndDateTime = time_Format lib (Add t2 (8 * Hour)) RFC3339,
          ors_MaintenanceNotification = ''200000123'',
          ors_Metadata =
            \<lparr>md_ID = order_uri orderID, md_URI = order_uri orderID,
             md_Type = ''API_MAINTENANCE_ORDER.A_MaintenanceOrderType''\<rparr>,
          ors_Results =
            [\<lparr>opr_MaintenanceOrder = orderID,
              opr_MaintenanceOrderOperation = ''0010'',
              opr_OperationText = ''Mock operation'',
              opr_WorkCenter = ''MOCK-WC01'',
              opr_OperationControlKey = ''PM01'',
              opr_OperationStandardDuration = ''4'',
              opr_OperationDurationUnit = ''H'',
              opr_OperationStatus = ''CNF'',
              opr_ActualWorkQuantity = ''4.0'',
              opr_WorkQuantityUnit = ''H'',
              opr_Metadata =
                \<lparr>md_ID = operation_uri orderID ''0010'',
                 md_URI = operation_uri orderID ''0010'',
                 md_Type = ''API_MAINTENANCE_ORDER.A_MaintenanceOrderOperationType''\<rparr>\<rparr>]\<rparr>, w2))"

subsection \<open>The three operations\<close>

text \<open>
  Each operation answers from the simulator when \<open>cl_simulatorMode\<close> is set and talks to the
  back end otherwise. The call and its result are appended to \<open>calls\<close>.
\<close>

definition CreateNotification ::
  "Lib \<Rightarrow> 'e Env \<Rightarrow> Client \<Rightarrow> SAPNotificationRequest \<Rightarrow> 'e world
     \<Rightarrow> (go_error + SAPNotificationResponse) \<times> 'e world" where
  "CreateNotification lib env c req w =
     (case
        (if cl_simulatorMode c then
           (case createMockNotificationResponse env req w of (resp, w1) \<Rightarrow> (Inr resp, w1))
         else
           (case Marshal_notification lib req of
              Inl err \<Rightarrow> (Inl (WrapError ''failed to marshal request: '' err), w)
            | Inr reqBody \<Rightarrow>
               (let url = cfg_BaseURL (cl_config c) @ ''/API_MAINTENANCE_NOTIFICATION/A_MaintenanceNotification''
                in case NewRequest_check lib ''POST'' url of
                     Some err \<Rightarrow> (Inl (WrapError ''failed to create request: '' err), w)
                   | None \<Rightarrow>
                      (let httpReq = Header_Set ''Accept'' ''application/json''
                             (Header_Set ''Content-Type'' ''application/json''
                                \<lparr>rq_method = ''POST'', rq_url = url, rq_body = Some reqBody, rq_header = []\<rparr>)
                       in case do_http env httpReq w of
                            (DoFailed err, w1) \<Rightarrow> (Inl (WrapError ''failed to send request: '' err), w1)
                          | (ReadAllFailed err, w1) \<Rightarrow> (Inl (WrapError ''failed to read response: '' err), w1)
                          | (Replied code respBody, w1) \<Rightarrow>
                             (if code \<noteq> 201 then
                                (Inl (ErrorString (''SAP API returned status '' @ Sprintf_d code @ '': '' @ respBody)), w1)
                              else
                                (case Unmarshal_notification lib respBody of
                                   Inl err \<Rightarrow> (Inl (WrapError ''failed to parse response: '' err), w1)
                                 | Inr notificationResp \<Rightarrow> (Inr notificationResp, w1)))))))
      of (r, w') \<Rightarrow> (r, called (CalledCreateNotification req r) w'))"

definition CreateOrder ::
  "Lib \<Rightarrow> 'e Env \<Rightarrow> Client \<Rightarrow> SAPOrderRequest \<Rightarrow> 'e world
     \<Rightarrow> (go_error + SAPOrderResponse) \<times> 'e world" where
  "CreateOrder lib env c req w =
     (case
        (if cl_simulatorMode c then
           (case createMockOrderResponse env req w of (resp, w1) \<Rightarrow> (Inr resp, w1))
         else
           (case Marshal_order lib req of
              Inl err \<Rightarrow> (Inl (WrapError ''failed to marshal request: '' err), w)
            | Inr reqBody \<Rightarrow>
               (let url = cfg_BaseURL (cl_config c) @ ''/API_MAINTENANCE_ORDER/A_MaintenanceOrder''
                in case NewRequest_check lib ''POST'' url of
                     Some err \<Rightarrow> (Inl (WrapError ''failed to create request: '' err), w)
                   | None \<Rightarrow>
                      (let httpReq = Header_Set ''Accept'' ''application/json''
                             (Header_Set ''Content-Type'' ''application/json''
                                \<lparr>rq_method = ''POST'', rq_url = url, rq_body = Some reqBody, rq_header = []\<rparr>)
                       in case do_http env httpReq w of
                            (DoFailed err, w1) \<Rightarrow> (Inl (WrapError ''failed to send request: '' err), w1)
                          | (ReadAllFailed err, w1) \<Rightarrow> (Inl (WrapError ''failed to read response: '' err), w1)
                          | (Replied code respBody, w1) \<Rightarrow>
                             (if code \<noteq> 201 then
                                (Inl (ErrorString (''SAP API returned status '' @ Sprintf_d code @ '': '' @ respBody)), w1)
                              else
                                (case Unmarshal_order lib respBody of
                                   Inl err \<Rightarrow> (Inl (WrapError ''failed to parse response: '' err), w1)
                                 | Inr orderResp \<Rightarrow> (Inr orderResp, w1)))))))
      of (r, w') \<Rightarrow> (r, called (CalledCreateOrder req r) w'))"

text \<open>\<^verbatim>\<open>url.Values{"$expand": ["to_MaintenanceOrderOperation"]}.Encode()\<close>.\<close>

definition expand_params :: string where
  "expand_params = ''%24expand=to_MaintenanceOrderOperation''"

definition GetOrder ::
  "Lib \<Rightarrow> 'e Env \<Rightarrow> Client \<Rightarrow> string \<Rightarrow> 'e world \<Rightarrow> (go_error + SAPOrderResponse) \<times> 'e world" where
  "GetOrder lib env c orderID w =
     (case
        (if cl_simulatorMode c then
           (case createMockOrderStatusResponse lib env orderID w of (resp, w1) \<Rightarrow> (Inr resp, w1))
         else
           (let baseURL = cfg_BaseURL (cl_config c) @ ''/API_MAINTENANCE_ORDER/A_MaintenanceOrder(''
                            @ [CHR 0x27] @ orderID @ [CHR 0x27] @ '')'';
                fullURL = baseURL @ ''?'' @ expand_params
            in case NewRequest_check lib ''GET'' fullURL of
                 Some err \<Rightarrow> (Inl (WrapError ''failed to create request: '' err), w)
               | None \<Rightarrow>
                  (let httpReq = Header_Set ''Accept'' ''application/json''
                         \<lparr>rq_method = ''GET'', rq_url = fullURL, rq_body = None, rq_header = []\<rparr>
                   in case do_http env httpReq w of
                        (DoFailed err, w1) \<Rightarrow> (Inl (WrapError ''failed to send request: '' err), w1)
                      | (ReadAllFailed err, w1) \<Rightarrow> (Inl (WrapError ''failed to read response: '' err), w1)
                      | (Replied code respBody, w1) \<Rightarrow>
                         (if code \<noteq> 200 then
                            (Inl (ErrorString (''SAP API returned status '' @ Sprintf_d code @ '': '' @ respBody)), w1)
                          else
                            (case Unmarshal_order lib respBody of
                               Inl err \<Rightarrow> (Inl (WrapError ''failed to parse response: '' err), w1)
                             | Inr orderResp \<Rightarrow> (Inr orderResp, w1))))))
      of (r, w') \<Rightarrow> (r, called (CalledGetOrder orderID r) w'))"

subsection \<open>Translation between the requester's shapes and the back end's\<close>

text \<open>
  The two functions that build requests are also declared, with the same bodies, in
  internal/models/models.go; the service calls the ones of package sap.
\<close>

definition ConvertMaintenanceOrderEventToNotificationRequest ::
  "MaintenanceOrderEvent \<Rightarrow> SAPNotificationRequest" where
  "ConvertMaintenanceOrderEventToNotificationRequest event =
     \<lparr>nrq_NotificationType = ''M1'',
      nrq_Description = ev_Description event,
      nrq_Equipment = ev_EquipmentID event,
      nrq_FunctionalLocation = ev_FunctionalLocation event,
      nrq_Plant = ev_Plant event,
      nrq_Priority = ev_Priority event\<rparr>"

text \<open>The body of the loop over \<^verbatim>\<open>event.Operations\<close>.\<close>

definition convert_operation :: "Lib \<Rightarrow> MaintenanceOrderEvent \<Rightarrow> MaintenanceOperation \<Rightarrow> SAPOrderOperation" where
  "convert_operation lib event op =
     \<lparr>oop_OperationText = op_Text op,
      oop_WorkCenter = op_WorkCenter op,
      oop_Plant = ev_Plant event,
      oop_OperationControlKey = ev_MaintenanceOrderType event,
      oop_OperationStandardDuration = FormatFloat lib (op_Duration op) CHR ''f'' (- 1) 64,
      oop_OperationDurationUnit = op_DurationUnit op\<rparr>"

definition ConvertMaintenanceOrderEventToOrderRequest ::
  "Lib \<Rightarrow> MaintenanceOrderEvent \<Rightarrow> string \<Rightarrow> SAPOrderRequest" where
  "ConvertMaintenanceOrderEventToOrderRequest lib event notificationID =
     (let req = \<lparr>orq_MaintenanceOrderType = ev_MaintenanceOrderType event,
                 orq_Description = ev_Description event,
                 orq_Equipment = ev_EquipmentID event,
                 orq_FunctionalLocation = ev_FunctionalLocation event,
                 orq_Plant = ev_Plant event,
                 orq_MaintenancePlanningPlant = ev_Plant event,
                 orq_Priority = ev_Priority event,
                 orq_MaintOrdBasicStartDateTime = '''',
                 orq_MaintOrdBasicEndDateTime = '''',
                 orq_MaintenanceNotification = notificationID,
                 orq_ToMaintenanceOrderOperation = []\<rparr>;
          req = (case ev_PlannedStartTime event of
                   Some t \<Rightarrow> req\<lparr>orq_MaintOrdBasicStartDateTime := time_Format lib t RFC3339\<rparr>
                 | None \<Rightarrow> req);
          req = (case ev_PlannedEndTime event of
                   Some t \<Rightarrow> req\<lparr>orq_MaintOrdBasicEndDateTime := time_Format lib t RFC3339\<rparr>
                 | None \<Rightarrow> req)
      in foldl (\<lambda>r op. r\<lparr>orq_ToMaintenanceOrderOperation :=
                           orq_ToMaintenanceOrderOperation r @ [convert_operation lib event op]\<rparr>)
           req (ev_Operations event))"

definition convert_operation_status :: "Lib \<Rightarrow> SAPOrderOperationResponse \<Rightarrow> OperationStatus" where
  "convert_operation_status lib op =
     (let opStatus = \<lparr>os_OperationID = opr_MaintenanceOrderOperation op,
                      os_Text = opr_OperationText op,
                      os_Status = opr_OperationStatus op,
                      os_ActualWorkQuantity = 0,
                      os_WorkQuantityUnit = opr_WorkQuantityUnit op\<rparr>
      in if opr_ActualWorkQuantity op \<noteq> '''' then
           (case ParseFloat lib (opr_ActualWorkQuantity op) 64 of
              Inr qty \<Rightarrow> opStatus\<lparr>os_ActualWorkQuantity := qty\<rparr>
            | Inl err \<Rightarrow> opStatus)
         else opStatus)"

definition parse_time_field :: "Lib \<Rightarrow> string \<Rightarrow> Time option" where
  "parse_time_field lib s =
     (if s \<noteq> '''' then (case time_Parse lib RFC3339 s of Inr t \<Rightarrow> Some t | Inl err \<Rightarrow> None)
      else None)"

definition ConvertSAPOrderResponseToStatus :: "Lib \<Rightarrow> SAPOrderResponse \<Rightarrow> MaintenanceOrderStatus" where
  "ConvertSAPOrderResponseToStatus lib resp =
     \<lparr>mos_OrderID = ors_MaintenanceOrder resp,
      mos_Status = ors_OrderStatus resp,
      mos_Description = ors_Description resp,
      mos_EquipmentID = ors_Equipment resp,
      mos_Plant = ors_Plant resp,
      mos_NotificationID = ors_MaintenanceNotification resp,
      mos_ActualStartTime = parse_time_field lib (ors_MaintOrdBasicStartDateTime resp),
      mos_ActualEndTime = parse_time_field lib (ors_MaintOrdBasicEndDateTime resp),
      mos_Operations = map (convert_operation_status lib) (ors_Results resp)\<rparr>"

section \<open>The maintenance service (internal/services/maintenance.go)\<close>

definition ProcessMaintenanceOrderEvent ::
  "Lib \<Rightarrow> 'e Env \<Rightarrow> Client \<Rightarrow> MaintenanceOrderEvent \<Rightarrow> 'e world
     \<Rightarrow> (go_error + MaintenanceOrderResponse) \<times> 'e world" where
  "ProcessMaintenanceOrderEvent lib env c event w =
     (let notificationReq = ConvertMaintenanceOrderEventToNotificationRequest event
      in case CreateNotification lib env c notificationReq w of
           (Inl err, w1) \<Rightarrow> (Inl (WrapError ''failed to create SAP notification: '' err), w1)
         | (Inr notificationResp, w1) \<Rightarrow>
            (let notificationID = nrs_Notification notificationResp;
                 orderReq = ConvertMaintenanceOrderEventToOrderRequest lib event notificationID
             in case CreateOrder lib env c orderReq w1 of
                  (Inl err, w2) \<Rightarrow> (Inl (WrapError ''failed to create SAP order: '' err), w2)
                | (Inr orderResp, w2) \<Rightarrow>
                   (let orderID = ors_MaintenanceOrder orderResp
                    in case GetOrder lib env c orderID w2 of
                         (Inl err, w3) \<Rightarrow> (Inl (WrapError ''failed to verify order creation: '' err), w3)
                       | (Inr verifyResp, w3) \<Rightarrow>
                          (if ors_MaintenanceOrder verifyResp \<noteq> orderID then
                             (Inl (ErrorString (''order verification failed: expected '' @ orderID
                                                 @ '', got '' @ ors_MaintenanceOrder verifyResp)), w3)
                           else
                             (case now env w3 of (t, w4) \<Rightarrow>
                                (Inr \<lparr>mor_OrderID = orderID,
                                      mor_NotificationID = notificationID,
                                      mor_Status = ors_OrderStatus verifyResp,
                                      mor_Message = ''Maintenance order created successfully'',
                                      mor_CreatedAt = t\<rparr>, w4))))))"

definition GetMaintenanceOrderStatus ::
  "Lib \<Rightarrow> 'e Env \<Rightarrow> Client \<Rightarrow> string \<Rightarrow> 'e world \<Rightarrow> (go_error + MaintenanceOrderStatus) \<times> 'e world" where
  "GetMaintenanceOrderStatus lib env c orderID w =
     (case GetOrder lib env c orderID w of
        (Inl err, w1) \<Rightarrow> (Inl (WrapError ''failed to get order from SAP: '' err), w1)
      | (Inr orderResp, w1) \<Rightarrow> (Inr (ConvertSAPOrderResponseToStatus lib orderResp), w1))"

subsection \<open>Monitoring\<close>

text \<open>
  \<^verbatim>\<open>MonitorOrderStatus\<close> loops over a \<^verbatim>\<open>select\<close> between \<^verbatim>\<open>ctx.Done()\<close> and the ticker's channel.
  The run is driven by the cases the \<^verbatim>\<open>select\<close> takes, one per iteration:
  \<^item> \<open>CtxDone e\<close>: it receives from \<^verbatim>\<open>ctx.Done()\<close>. If the context was not cancelled before,
    it is cancelled now, while the loop waits, with error \<open>e\<close>.
  \<^item> \<open>TickerC c\<close>: it receives a tick and runs the body; \<open>c = Some e\<close> says that the context
    is cancelled with error \<open>e\<close> while this iteration's fetch is in flight.
  When both channels are ready Go's \<^verbatim>\<open>select\<close> takes either, so a tick may follow a
  cancellation that happened in flight. The body never looks at the context; what a live
  fetch does under a cancelled context is the environment's answer, and the simulator
  ignores the context. When the cases given are used up the loop is waiting in its
  \<^verbatim>\<open>select\<close>: the result is \<open>Waiting\<close>. Otherwise it is \<open>Returned r\<close> with the returned
  error (\<open>None\<close> for \<^verbatim>\<open>nil\<close>). The ticker's period of 30 seconds is not modelled: a
  tick stands for one elapsed period.
\<close>

datatype select_case = CtxDone go_error | TickerC "go_error option"

datatype monitor_result = Waiting | Returned "go_error option"

definition cancel :: "go_error \<Rightarrow> 'e world \<Rightarrow> 'e world" where
  "cancel e w = (case ctx_err w of None \<Rightarrow> w\<lparr>ctx_err := Some e\<rparr> | Some e0 \<Rightarrow> w)"

definition cancel_in_flight :: "go_error option \<Rightarrow> 'e world \<Rightarrow> 'e world" where
  "cancel_in_flight c w = (case c of None \<Rightarrow> w | Some e \<Rightarrow> cancel e w)"

type_synonym 'e callback = "MaintenanceOrderStatus \<Rightarrow> 'e \<Rightarrow> go_error option \<times> 'e"

text \<open>A call of the callback, recorded in \<open>handled\<close> with the context's state at that moment.\<close>

definition invoke :: "'e callback \<Rightarrow> MaintenanceOrderStatus \<Rightarrow> 'e world \<Rightarrow> go_error option \<times> 'e world" where
  "invoke cb status w =
     (case cb status (ext w) of
        (r, e') \<Rightarrow> (r, w\<lparr>ext := e', handled := handled w @ [(status, ctx_err w)]\<rparr>))"

fun MonitorOrderStatus ::
  "Lib \<Rightarrow> 'e Env \<Rightarrow> Client \<Rightarrow> string \<Rightarrow> 'e callback option \<Rightarrow> select_case list \<Rightarrow> 'e world
     \<Rightarrow> monitor_result \<times> 'e world" where
  "MonitorOrderStatus lib env c orderID callback [] w = (Waiting, w)"
| "MonitorOrderStatus lib env c orderID callback (CtxDone e # evs) w =
     (let w1 = cancel e w in (Returned (ctx_err w1), w1))"
| "MonitorOrderStatus lib env c orderID callback (TickerC cn # evs) w =
     (case GetMaintenanceOrderStatus lib env c orderID w of
        (Inl err, w1) \<Rightarrow> MonitorOrderStatus lib env c orderID callback evs (cancel_in_flight cn w1)
      | (Inr status, w1) \<Rightarrow>
         (let w2 = cancel_in_flight cn w1
          in if mos_Status status = ''TECO'' \<or> mos_Status status = ''CLSD'' then
               (case callback of
                  Some cb \<Rightarrow>
                    (case invoke cb status w2 of
                       (Some err, w3) \<Rightarrow> (Returned (Some err), w3)
                     | (None, w3) \<Rightarrow> (Returned None, w3))
                | None \<Rightarrow> (Returned None, w2))
             else MonitorOrderStatus lib env c orderID callback evs w2))"

section \<open>The HTTP handler (internal/handlers/maintenance.go)\<close>

datatype handler_reply = ReplyError int ErrorResponse | ReplyStatus int MaintenanceOrderStatus

definition GetMaintenanceOrder ::
  "Lib \<Rightarrow> 'e Env \<Rightarrow> Client \<Rightarrow> string \<Rightarrow> 'e world \<Rightarrow> handler_reply \<times> 'e world" where
  "GetMaintenanceOrder lib env c orderID w =
     (if orderID = '''' then
        (ReplyError 400 \<lparr>er_Error = ''Order ID is required'', er_Code = ''MISSING_ORDER_ID'',
                         er_Details = None\<rparr>, w)
      else
        (case GetMaintenanceOrderStatus lib env c orderID w of
           (Inl err, w1) \<Rightarrow>
             (if Error err = ''SAP API returned status 404'' then
                (ReplyError 404 \<lparr>er_Error = ''Maintenance order not found'', er_Code = ''ORDER_NOT_FOUND'',
                                 er_Details = None\<rparr>, w1)
              else
                (ReplyError 500 \<lparr>er_Error = ''Failed to retrieve maintenance order'',
                                 er_Code = ''RETRIEVAL_ERROR'', er_Details = Some (Error err)\<rparr>, w1))
         | (Inr status, w1) \<Rightarrow> (ReplyStatus 200 status, w1)))"

section \<open>Concrete inputs\<close>

text \<open>
  Inputs on which the statements below are run: the configuration of the polling
  demonstration, a live configuration, stand-ins for the library functions, a clock that
  advances by one second per reading, and a back end that answers from a script.
\<close>

definition demo_config :: SAPConfig where
  "demo_config = \<lparr>cfg_BaseURL = ''simulator'', cfg_Username = [], cfg_Password = [],
     cfg_ClientID = [], cfg_ClientSecret = [], cfg_TokenURL = [], cfg_Timeout = 30,
     cfg_SimulatorMode = True\<rparr>"

definition live_config :: SAPConfig where
  "live_config = demo_config\<lparr>cfg_BaseURL := ''https://sap.example.com'', cfg_SimulatorMode := False\<rparr>"

definition stub_order :: "string \<Rightarrow> string \<Rightarrow> SAPOrderResponse" where
  "stub_order orderID status =
     \<lparr>ors_MaintenanceOrder = orderID, ors_MaintenanceOrderType = ''PM01'', ors_Description = [],
      ors_Equipment = [], ors_Plant = [], ors_OrderStatus = status,
      ors_MaintOrdBasicStartDateTime = [], ors_MaintOrdBasicEndDateTime = [],
      ors_MaintenanceNotification = [],
      ors_Metadata = \<lparr>md_ID = [], md_URI = [], md_Type = []\<rparr>, ors_Results = []\<rparr>"

definition stub_lib :: Lib where
  "stub_lib =
     \<lparr>time_Format = (\<lambda>t layout. ''2025-08-21T08:00:00Z''),
      time_Parse = (\<lambda>layout s. Inl (ErrorString ''cannot parse'')),
      FormatFloat = (\<lambda>x f prec bits. ''4''),
      ParseFloat = (\<lambda>s bits. Inl (ErrorString ''invalid syntax'')),
      Marshal_notification = (\<lambda>r. Inr ''{}''),
      Marshal_order = (\<lambda>r. Inr ''{}''),
      Unmarshal_notification = (\<lambda>body. Inr \<lparr>nrs_Notification = body, nrs_Description = [], nrs_Plant = []\<rparr>),
      Unmarshal_order = (\<lambda>body. Inr (stub_order (takeWhile (\<lambda>ch. ch \<noteq> CHR '','') body)
                                         (drop 1 (dropWhile (\<lambda>ch. ch \<noteq> CHR '','') body)))),
      NewRequest_check = (\<lambda>m u. None)\<rparr>"

definition clock_env :: "int Env" where
  "clock_env =
     \<lparr>time_Now = (\<lambda>e. (\<lparr>unix_nano = e, zone_offset = 0\<rparr>, e + 1000000000)),
      http_Do = (\<lambda>rq e. (DoFailed (ErrorString ''no network''), e))\<rparr>"

definition scripted_env :: "(http_outcome list) Env" where
  "scripted_env =
     \<lparr>time_Now = (\<lambda>e. (\<lparr>unix_nano = 0, zone_offset = 0\<rparr>, e)),
      http_Do = (\<lambda>rq e. case e of [] \<Rightarrow> (DoFailed (ErrorString ''connection refused''), [])
                          | out # rest \<Rightarrow> (out, rest))\<rparr>"

definition world0 :: "'e \<Rightarrow> 'e world" where
  "world0 e = \<lparr>ext = e, ctx_err = None, sent = [], calls = [], handled = []\<rparr>"

definition demo_event :: MaintenanceOrderEvent where
  "demo_event =
     \<lparr>ev_EquipmentID = ''10000045'', ev_FunctionalLocation = [], ev_Plant = ''1000'',
      ev_Description = ''Replace pump seal'', ev_Priority = [], ev_MaintenanceOrderType = [],
      ev_PlannedStartTime = None, ev_PlannedEndTime = None,
      ev_Operations = [\<lparr>op_Text = ''Disassemble pump'', op_WorkCenter = ''PUMP-WC01'',
                         op_Duration = 0x4010000000000000, op_DurationUnit = ''H''\<rparr>]\<rparr>"


section \<open>Vocabulary for runs of the monitor\<close>

text \<open>
  A fetch result keeps the loop polling when it is an error or a status other than
  \<^verbatim>\<open>TECO\<close> and \<^verbatim>\<open>CLSD\<close>.
\<close>

definition keeps_polling :: "go_error + MaintenanceOrderStatus \<Rightarrow> bool" where
  "keeps_polling r =
     (case r of Inl err \<Rightarrow> True
      | Inr status \<Rightarrow> mos_Status status \<noteq> ''TECO'' \<and> mos_Status status \<noteq> ''CLSD'')"

text \<open>
  The results of the fetches of successive ticks, one per entry of the list; the entry
  says whether the context is cancelled while that fetch is in flight.
\<close>

fun fetches ::
  "Lib \<Rightarrow> 'e Env \<Rightarrow> Client \<Rightarrow> string \<Rightarrow> go_error option list \<Rightarrow> 'e world
     \<Rightarrow> (go_error + MaintenanceOrderStatus) list \<times> 'e world" where
  "fetches lib env c orderID [] w = ([], w)"
| "fetches lib env c orderID (cn # cns) w =
     (case GetMaintenanceOrderStatus lib env c orderID w of
        (r, w1) \<Rightarrow>
          (case fetches lib env c orderID cns (cancel_in_flight cn w1) of
             (rs, w2) \<Rightarrow> (r # rs, w2)))"

text \<open>\<^verbatim>\<open>context.Canceled\<close>, and two callbacks: one that succeeds and one that fails.\<close>

definition Canceled :: go_error where
  "Canceled = ErrorString ''context canceled''"

definition notify_ok :: "'e callback" where
  "notify_ok status e = (None, e)"

definition notify_fails :: "'e callback" where
  "notify_fails status e = (Some (ErrorString ''digital twin unreachable''), e)"

text \<open>
  A script for the back end: a failure, a released order, then the order technically
  completed, and one more answer that a finished monitor never asks for.
\<close>

definition poll_script :: "http_outcome list" where
  "poll_script =
     [Replied 500 ''Internal Server Error'', Replied 200 ''400000001,REL'',
      Replied 200 ''400000001,TECO'', Replied 200 ''400000001,CLSD'']"

section \<open>Properties\<close>

subsection \<open>Bookkeeping of the histories\<close>

lemma now_keeps [simp]:
  "sent (snd (now env w)) = sent w" "calls (snd (now env w)) = calls w"
  "handled (snd (now env w)) = handled w" "ctx_err (snd (now env w)) = ctx_err w"
  by (simp_all add: now_def split: prod.splits)

lemma called_keeps [simp]:
  "sent (called x w) = sent w" "calls (called x w) = calls w @ [x]"
  "handled (called x w) = handled w" "ctx_err (called x w) = ctx_err w"
  by (simp_all add: called_def)

lemma do_http_keeps [simp]:
  "calls (snd (do_http env rq w)) = calls w"
  "handled (snd (do_http env rq w)) = handled w" "ctx_err (snd (do_http env rq w)) = ctx_err w"
  by (simp_all add: do_http_def split: prod.splits)

subsection \<open>The simulated back end\<close>

lemma sim_CreateNotification:
  "cl_simulatorMode c \<Longrightarrow>
   CreateNotification lib env c req w =
     (let r = createMockNotificationResponse env req w
      in (Inr (fst r), called (CalledCreateNotification req (Inr (fst r))) (snd r)))"
  by (simp add: CreateNotification_def Let_def split: prod.splits)

lemma sim_CreateOrder:
  "cl_simulatorMode c \<Longrightarrow>
   CreateOrder lib env c req w =
     (let r = createMockOrderResponse env req w
      in (Inr (fst r), called (CalledCreateOrder req (Inr (fst r))) (snd r)))"
  by (simp add: CreateOrder_def Let_def split: prod.splits)

lemma sim_GetOrder:
  "cl_simulatorMode c \<Longrightarrow>
   GetOrder lib env c orderID w =
     (let r = createMockOrderStatusResponse lib env orderID w
      in (Inr (fst r), called (CalledGetOrder orderID (Inr (fst r))) (snd r)))"
  by (simp add: GetOrder_def Let_def split: prod.splits)

lemma mock_notification_keeps [simp]:
  "sent (snd (createMockNotificationResponse env req w)) = sent w"
  "calls (snd (createMockNotificationResponse env req w)) = calls w"
  "handled (snd (createMockNotificationResponse env req w)) = handled w"
  "ctx_err (snd (createMockNotificationResponse env req w)) = ctx_err w"
  by (simp_all add: createMockNotificationResponse_def Let_def now_def split: prod.splits)

lemma mock_order_keeps [simp]:
  "sent (snd (createMockOrderResponse env req w)) = sent w"
  "calls (snd (createMockOrderResponse env req w)) = calls w"
  "handled (snd (createMockOrderResponse env req w)) = handled w"
  "ctx_err (snd (createMockOrderResponse env req w)) = ctx_err w"
  by (simp_all add: createMockOrderResponse_def Let_def now_def split: prod.splits)

lemma mock_status_keeps [simp]:
  "sent (snd (createMockOrderStatusResponse lib env orderID w)) = sent w"
  "calls (snd (createMockOrderStatusResponse lib env orderID w)) = calls w"
  "handled (snd (createMockOrderStatusResponse lib env orderID w)) = handled w"
  "ctx_err (snd (createMockOrderStatusResponse lib env orderID w)) = ctx_err w"
  by (simp_all add: createMockOrderStatusResponse_def Let_def now_def split: prod.splits)

lemma mock_status_fields [simp]:
  "ors_MaintenanceOrder (fst (createMockOrderStatusResponse lib env orderID w)) = orderID"
  "ors_OrderStatus (fst (createMockOrderStatusResponse lib env orderID w)) = mock_status orderID"
  by (simp_all add: createMockOrderStatusResponse_def Let_def now_def split: prod.splits)

lemma mock_status_last:
  "orderID \<noteq> [] \<Longrightarrow>
   mock_status orderID =
     (if last orderID \<in> set ''012'' then ''CRTD''
      else if last orderID \<in> set ''345'' then ''REL''
      else if last orderID \<in> set ''678'' then ''TECO''
      else if last orderID = CHR ''9'' then ''CLSD''
      else ''CRTD'')"
  by (simp add: mock_status_def Let_def last_conv_nth)

text \<open>
  C3: for a non-empty order id the simulator's \<open>GetOrder\<close> answers with a status that depends
  only on the id's last character (CRTD for 0, 1, 2; REL for 3, 4, 5; TECO for 6, 7, 8; CLSD
  for 9), so any two simulated reads of the same id give the same status, and the status
  fetched for an id ending in 9 is CLSD.
\<close>

theorem simulator_status_by_last_character:
  assumes "cl_simulatorMode c" and "cl_simulatorMode c'" and "orderID \<noteq> []"
  shows "\<exists>resp st.
           fst (GetOrder lib env c orderID w) = Inr resp
         \<and> ors_MaintenanceOrder resp = orderID
         \<and> ors_OrderStatus resp =
             (if last orderID \<in> set ''012'' then ''CRTD''
              else if last orderID \<in> set ''345'' then ''REL''
              else if last orderID \<in> set ''678'' then ''TECO''
              else if last orderID = CHR ''9'' then ''CLSD''
              else ''CRTD'')
         \<and> map_sum id ors_OrderStatus (fst (GetOrder lib' env' c' orderID w')) = Inr (ors_OrderStatus resp)
         \<and> fst (GetMaintenanceOrderStatus lib env c orderID w) = Inr st
         \<and> mos_Status st = ors_OrderStatus resp
         \<and> (last orderID = CHR ''9'' \<longrightarrow> mos_Status st = ''CLSD'')"
  using assms
  by (simp add: sim_GetOrder Let_def mock_status_last GetMaintenanceOrderStatus_def
        ConvertSAPOrderResponseToStatus_def split: prod.splits)

theorem simulator_status_by_last_character_witness:
  "cl_simulatorMode (NewClient demo_config) \<and> ''400000209'' \<noteq> []
   \<and> map_sum id mos_Status
        (fst (GetMaintenanceOrderStatus stub_lib clock_env (NewClient demo_config) ''400000209''
               (world0 1755763207000000000))) = Inr ''CLSD''"
  using simulator_status_by_last_character
          [of "NewClient demo_config" "NewClient demo_config" "''400000209''" stub_lib clock_env
              "world0 1755763207000000000" stub_lib clock_env "world0 0"]
  by (auto simp: NewClient_def demo_config_def)

text \<open>
  C9: \<open>NewClient\<close> selects the simulator when the flag is set, or the base URL is empty, or
  it is \<^verbatim>\<open>simulator\<close>; so with no base URL none of the three operations sends a request,
  whatever the flag, and the client is live only with the flag off and a base URL that is
  neither empty nor \<^verbatim>\<open>simulator\<close>.
\<close>

theorem NewClient_simulator_selection:
  "cl_simulatorMode (NewClient cfg)
     = (cfg_SimulatorMode cfg \<or> cfg_BaseURL cfg = '''' \<or> cfg_BaseURL cfg = ''simulator'')
   \<and> (cfg_BaseURL cfg = '''' \<longrightarrow>
        sent (snd (CreateNotification lib env (NewClient cfg) nreq w)) = sent w
      \<and> sent (snd (CreateOrder lib env (NewClient cfg) oreq w)) = sent w
      \<and> sent (snd (GetOrder lib env (NewClient cfg) orderID w)) = sent w)
   \<and> (\<not> cl_simulatorMode (NewClient cfg)
        \<longleftrightarrow> \<not> cfg_SimulatorMode cfg \<and> cfg_BaseURL cfg \<noteq> '''' \<and> cfg_BaseURL cfg \<noteq> ''simulator'')"
proof -
  have sel: "cl_simulatorMode (NewClient cfg)
     = (cfg_SimulatorMode cfg \<or> cfg_BaseURL cfg = '''' \<or> cfg_BaseURL cfg = ''simulator'')"
    by (simp add: NewClient_def)
  have quiet: "sent (snd (CreateNotification lib env (NewClient cfg) nreq w)) = sent w
      \<and> sent (snd (CreateOrder lib env (NewClient cfg) oreq w)) = sent w
      \<and> sent (snd (GetOrder lib env (NewClient cfg) orderID w)) = sent w"
    if "cfg_BaseURL cfg = ''''"
  proof -
    from that sel have "cl_simulatorMode (NewClient cfg)" by simp
    then show ?thesis
      by (simp add: sim_CreateNotification sim_CreateOrder sim_GetOrder Let_def)
  qed
  from sel quiet show ?thesis by blast
qed

theorem NewClient_simulator_selection_witness:
  "cfg_BaseURL (live_config\<lparr>cfg_BaseURL := ''''\<rparr>) = ''''
   \<and> \<not> cfg_SimulatorMode (live_config\<lparr>cfg_BaseURL := ''''\<rparr>)
   \<and> cl_simulatorMode (NewClient (live_config\<lparr>cfg_BaseURL := ''''\<rparr>))
   \<and> sent (snd (GetOrder stub_lib scripted_env (NewClient (live_config\<lparr>cfg_BaseURL := ''''\<rparr>))
                  ''400000001'' (world0 [Replied 200 ''400000001,CRTD'']))) = []
   \<and> \<not> cl_simulatorMode (NewClient live_config)"
  using NewClient_simulator_selection
          [of "live_config\<lparr>cfg_BaseURL := ''''\<rparr>" stub_lib scripted_env
              "ConvertMaintenanceOrderEventToNotificationRequest demo_event"
              "world0 [Replied 200 ''400000001,CRTD'']"
              "ConvertMaintenanceOrderEventToOrderRequest stub_lib demo_event ''200000123''" "''400000001''"]
        NewClient_simulator_selection
          [of live_config stub_lib scripted_env
              "ConvertMaintenanceOrderEventToNotificationRequest demo_event"
              "world0 [Replied 200 ''400000001,CRTD'']"
              "ConvertMaintenanceOrderEventToOrderRequest stub_lib demo_event ''200000123''" "''400000001''"]
  by (simp add: live_config_def demo_config_def world0_def)

subsection \<open>Submission against the simulator\<close>

lemma digits_last: "digits n \<noteq> [] \<and> last (digits n) = ''0123456789'' ! (n mod 10)"
  by (induction n rule: digits.induct) (subst (1 2) digits.simps, simp)

lemma Sprintf_0d_last: "Sprintf_0d wid i \<noteq> [] \<and> last (Sprintf_0d wid i) \<in> set ''0123456789''"
proof -
  have "nat \<bar>i\<bar> mod 10 < length ''0123456789''" by simp
  then have "''0123456789'' ! (nat \<bar>i\<bar> mod 10) \<in> set ''0123456789''" by (rule nth_mem)
  then show ?thesis
    using digits_last [of "nat \<bar>i\<bar>"] by (simp add: Sprintf_0d_def Let_def)
qed

lemma mock_order_id:
  "ors_MaintenanceOrder (fst (createMockOrderResponse env req w))
     = ''400000'' @ Sprintf_0d 3 (go_rem (Unix (fst (now env w))) 1000)"
  by (simp add: createMockOrderResponse_def Let_def split: prod.splits)

lemma mock_status_digit:
  "orderID \<noteq> [] \<Longrightarrow> last orderID \<in> set ''0123456789'' \<Longrightarrow>
   mock_status orderID =
     (if last orderID \<in> set ''012'' then ''CRTD''
      else if last orderID \<in> set ''345'' then ''REL''
      else if last orderID \<in> set ''678'' then ''TECO''
      else ''CLSD'')"
  by (auto simp: mock_status_last)

text \<open>
  C2: against the simulator a submission always succeeds: the three steps return no error,
  the verification passes because the simulated read echoes the id it is asked for, and
  the status of the response is the one the simulated read derives from the last character
  of the returned order id, which is always a digit.
\<close>

theorem simulated_submission_succeeds:
  assumes "cl_simulatorMode c"
  shows "\<exists>resp w'.
           ProcessMaintenanceOrderEvent lib env c event w = (Inr resp, w')
         \<and> mor_OrderID resp \<noteq> []
         \<and> last (mor_OrderID resp) \<in> set ''0123456789''
         \<and> map_sum id ors_OrderStatus (fst (GetOrder lib env c (mor_OrderID resp) w')) = Inr (mor_Status resp)
         \<and> mor_Status resp =
             (if last (mor_OrderID resp) \<in> set ''012'' then ''CRTD''
              else if last (mor_OrderID resp) \<in> set ''345'' then ''REL''
              else if last (mor_OrderID resp) \<in> set ''678'' then ''TECO''
              else ''CLSD'')"
proof -
  define nreq where "nreq = ConvertMaintenanceOrderEventToNotificationRequest event"
  obtain nresp w1 where n: "CreateNotification lib env c nreq w = (Inr nresp, w1)"
    using assms by (simp add: sim_CreateNotification Let_def)
  define oreq where "oreq = ConvertMaintenanceOrderEventToOrderRequest lib event (nrs_Notification nresp)"
  obtain oresp w2 where o: "CreateOrder lib env c oreq w1 = (Inr oresp, w2)"
    and oid: "ors_MaintenanceOrder oresp = ''400000'' @ Sprintf_0d 3 (go_rem (Unix (fst (now env w1))) 1000)"
    using assms by (simp add: sim_CreateOrder Let_def mock_order_id)
  define orderID where "orderID = ors_MaintenanceOrder oresp"
  have ne: "orderID \<noteq> []" and dg: "last orderID \<in> set ''0123456789''"
    using Sprintf_0d_last [of 3 "go_rem (Unix (fst (now env w1))) 1000"]
    by (simp_all add: orderID_def oid)
  obtain vresp w3 where v: "GetOrder lib env c orderID w2 = (Inr vresp, w3)"
    and vid: "ors_MaintenanceOrder vresp = orderID" and vst: "ors_OrderStatus vresp = mock_status orderID"
    using assms by (simp add: sim_GetOrder Let_def)
  obtain t w4 where t: "now env w3 = (t, w4)" by (cases "now env w3")
  have run: "ProcessMaintenanceOrderEvent lib env c event w =
          (Inr \<lparr>mor_OrderID = orderID, mor_NotificationID = nrs_Notification nresp,
                mor_Status = mock_status orderID,
                mor_Message = ''Maintenance order created successfully'', mor_CreatedAt = t\<rparr>, w4)"
    using n o v vid vst t
    by (simp add: ProcessMaintenanceOrderEvent_def Let_def nreq_def [symmetric] oreq_def [symmetric]
          orderID_def [symmetric])
  have again: "map_sum id ors_OrderStatus (fst (GetOrder lib env c orderID w4)) = Inr (mock_status orderID)"
    using assms by (simp add: sim_GetOrder Let_def)
  show ?thesis
    using run ne dg again mock_status_digit [OF ne dg] by simp
qed

lemma clock_207: "Sprintf_0d 3 (go_rem (Unix \<lparr>unix_nano = 1755763207000000000, zone_offset = 0\<rparr>) 1000) = ''207''"
  by code_simp

lemma clock_208: "Sprintf_0d 3 (go_rem (Unix \<lparr>unix_nano = 1755763208000000000, zone_offset = 0\<rparr>) 1000) = ''208''"
  by code_simp

lemma demo_is_simulated: "cl_simulatorMode (NewClient demo_config)"
  by (simp add: NewClient_def demo_config_def)

lemma demo_submission:
  "map_sum id (\<lambda>r. (mor_OrderID r, mor_NotificationID r, mor_Status r))
        (fst (ProcessMaintenanceOrderEvent stub_lib clock_env (NewClient demo_config) demo_event
               (world0 1755763207000000000))) = Inr (''400000208'', ''200000207'', ''TECO'')"
  by (simp add: ProcessMaintenanceOrderEvent_def sim_CreateNotification sim_CreateOrder sim_GetOrder
        demo_is_simulated Let_def createMockNotificationResponse_def
        createMockOrderResponse_def createMockOrderStatusResponse_def now_def clock_env_def world0_def
        called_def mock_status_def clock_207 clock_208)

theorem simulated_submission_succeeds_witness:
  "cl_simulatorMode (NewClient demo_config)
   \<and> (\<exists>resp w'. ProcessMaintenanceOrderEvent stub_lib clock_env (NewClient demo_config) demo_event
                    (world0 1755763207000000000) = (Inr resp, w')
                \<and> mor_OrderID resp = ''400000208'' \<and> mor_Status resp = ''TECO'')"
proof -
  from simulated_submission_succeeds [OF demo_is_simulated, of stub_lib clock_env demo_event
          "world0 1755763207000000000"]
  obtain resp w' where run: "ProcessMaintenanceOrderEvent stub_lib clock_env (NewClient demo_config)
          demo_event (world0 1755763207000000000) = (Inr resp, w')"
    by blast
  with demo_submission have "mor_OrderID resp = ''400000208'' \<and> mor_Status resp = ''TECO''"
    by simp
  with run demo_is_simulated show ?thesis by blast
qed

subsection \<open>The three steps of a submission\<close>

lemma CreateNotification_keeps:
  "calls (snd (CreateNotification lib env c req w))
     = calls w @ [CalledCreateNotification req (fst (CreateNotification lib env c req w))]"
  "handled (snd (CreateNotification lib env c req w)) = handled w"
  "ctx_err (snd (CreateNotification lib env c req w)) = ctx_err w"
  by (simp_all add: CreateNotification_def Let_def case_prod_beta
        split: sum.splits option.splits http_outcome.splits)

lemma CreateOrder_keeps:
  "calls (snd (CreateOrder lib env c req w))
     = calls w @ [CalledCreateOrder req (fst (CreateOrder lib env c req w))]"
  "handled (snd (CreateOrder lib env c req w)) = handled w"
  "ctx_err (snd (CreateOrder lib env c req w)) = ctx_err w"
  by (simp_all add: CreateOrder_def Let_def case_prod_beta
        split: sum.splits option.splits http_outcome.splits)

lemma GetOrder_keeps:
  "calls (snd (GetOrder lib env c orderID w))
     = calls w @ [CalledGetOrder orderID (fst (GetOrder lib env c orderID w))]"
  "handled (snd (GetOrder lib env c orderID w)) = handled w"
  "ctx_err (snd (GetOrder lib env c orderID w)) = ctx_err w"
  by (simp_all add: GetOrder_def Let_def case_prod_beta
        split: sum.splits option.splits http_outcome.splits)

lemma append_operations:
  "foldl (\<lambda>r op. r\<lparr>orq_ToMaintenanceOrderOperation :=
                     orq_ToMaintenanceOrderOperation r @ [f op]\<rparr>) r0 ops
     = r0\<lparr>orq_ToMaintenanceOrderOperation := orq_ToMaintenanceOrderOperation r0 @ map f ops\<rparr>"
  by (induction ops arbitrary: r0) simp_all

lemma order_request_eq:
  "ConvertMaintenanceOrderEventToOrderRequest lib event nid =
     \<lparr>orq_MaintenanceOrderType = ev_MaintenanceOrderType event,
      orq_Description = ev_Description event,
      orq_Equipment = ev_EquipmentID event,
      orq_FunctionalLocation = ev_FunctionalLocation event,
      orq_Plant = ev_Plant event,
      orq_MaintenancePlanningPlant = ev_Plant event,
      orq_Priority = ev_Priority event,
      orq_MaintOrdBasicStartDateTime =
        (case ev_PlannedStartTime event of Some t \<Rightarrow> time_Format lib t RFC3339 | None \<Rightarrow> ''''),
      orq_MaintOrdBasicEndDateTime =
        (case ev_PlannedEndTime event of Some t \<Rightarrow> time_Format lib t RFC3339 | None \<Rightarrow> ''''),
      orq_MaintenanceNotification = nid,
      orq_ToMaintenanceOrderOperation = map (convert_operation lib event) (ev_Operations event)\<rparr>"
  by (simp add: ConvertMaintenanceOrderEventToOrderRequest_def Let_def append_operations
        split: option.splits)

lemma order_request_notification:
  "orq_MaintenanceNotification (ConvertMaintenanceOrderEventToOrderRequest lib event nid) = nid"
  by (simp add: order_request_eq)

text \<open>
  C1: a submission calls the client at most three times and in this order: create the
  notification, create the order with the notification id just returned as its notification
  reference, read the order with the id just returned, each on the state the call before
  left. Its run is one of five: the first, second or third operation fails and the
  submission ends there, with that operation as the last call and its error wrapped; or
  all three succeed, there are exactly three calls, and either the read answers with
  another order id than the creation did, which gives the verification error with no call
  after the read, or the ids agree and the response is built from the three results.
\<close>

theorem submission_call_sequence:
  fixes lib env c event w
  defines "nreq \<equiv> ConvertMaintenanceOrderEventToNotificationRequest event"
  defines "P \<equiv> ProcessMaintenanceOrderEvent lib env c event w"
  shows
   "(\<exists>e w1.
        CreateNotification lib env c nreq w = (Inl e, w1)
      \<and> P = (Inl (WrapError ''failed to create SAP notification: '' e), w1)
      \<and> calls w1 = calls w @ [CalledCreateNotification nreq (Inl e)])
  \<or> (\<exists>nresp w1 oreq e w2.
        CreateNotification lib env c nreq w = (Inr nresp, w1)
      \<and> oreq = ConvertMaintenanceOrderEventToOrderRequest lib event (nrs_Notification nresp)
      \<and> orq_MaintenanceNotification oreq = nrs_Notification nresp
      \<and> CreateOrder lib env c oreq w1 = (Inl e, w2)
      \<and> P = (Inl (WrapError ''failed to create SAP order: '' e), w2)
      \<and> calls w2 = calls w @ [CalledCreateNotification nreq (Inr nresp),
                                CalledCreateOrder oreq (Inl e)])
  \<or> (\<exists>nresp w1 oreq oresp w2 e w3.
        CreateNotification lib env c nreq w = (Inr nresp, w1)
      \<and> oreq = ConvertMaintenanceOrderEventToOrderRequest lib event (nrs_Notification nresp)
      \<and> orq_MaintenanceNotification oreq = nrs_Notification nresp
      \<and> CreateOrder lib env c oreq w1 = (Inr oresp, w2)
      \<and> GetOrder lib env c (ors_MaintenanceOrder oresp) w2 = (Inl e, w3)
      \<and> P = (Inl (WrapError ''failed to verify order creation: '' e), w3)
      \<and> calls w3 = calls w @ [CalledCreateNotification nreq (Inr nresp),
                                CalledCreateOrder oreq (Inr oresp),
                                CalledGetOrder (ors_MaintenanceOrder oresp) (Inl e)])
  \<or> (\<exists>nresp w1 oreq oresp w2 vresp w3.
        CreateNotification lib env c nreq w = (Inr nresp, w1)
      \<and> oreq = ConvertMaintenanceOrderEventToOrderRequest lib event (nrs_Notification nresp)
      \<and> orq_MaintenanceNotification oreq = nrs_Notification nresp
      \<and> CreateOrder lib env c oreq w1 = (Inr oresp, w2)
      \<and> GetOrder lib env c (ors_MaintenanceOrder oresp) w2 = (Inr vresp, w3)
      \<and> ors_MaintenanceOrder vresp \<noteq> ors_MaintenanceOrder oresp
      \<and> P = (Inl (ErrorString (''order verification failed: expected '' @ ors_MaintenanceOrder oresp
                                  @ '', got '' @ ors_MaintenanceOrder vresp)), w3)
      \<and> calls w3 = calls w @ [CalledCreateNotification nreq (Inr nresp),
                                CalledCreateOrder oreq (Inr oresp),
                                CalledGetOrder (ors_MaintenanceOrder oresp) (Inr vresp)])
  \<or> (\<exists>nresp w1 oreq oresp w2 vresp w3 t w4.
        CreateNotification lib env c nreq w = (Inr nresp, w1)
      \<and> oreq = ConvertMaintenanceOrderEventToOrderRequest lib event (nrs_Notification nresp)
      \<and> orq_MaintenanceNotification oreq = nrs_Notification nresp
      \<and> CreateOrder lib env c oreq w1 = (Inr oresp, w2)
      \<and> GetOrder lib env c (ors_MaintenanceOrder oresp) w2 = (Inr vresp, w3)
      \<and> ors_MaintenanceOrder vresp = ors_MaintenanceOrder oresp
      \<and> now env w3 = (t, w4)
      \<and> P = (Inr \<lparr>mor_OrderID = ors_MaintenanceOrder oresp,
                    mor_NotificationID = nrs_Notification nresp,
                    mor_Status = ors_OrderStatus vresp,
                    mor_Message = ''Maintenance order created successfully'',
                    mor_CreatedAt = t\<rparr>, w4)
      \<and> calls w4 = calls w @ [CalledCreateNotification nreq (Inr nresp),
                                CalledCreateOrder oreq (Inr oresp),
                                CalledGetOrder (ors_MaintenanceOrder oresp) (Inr vresp)])"
proof -
  obtain r1 w1 where n: "CreateNotification lib env c nreq w = (r1, w1)"
    by (cases "CreateNotification lib env c nreq w")
  have c1: "calls w1 = calls w @ [CalledCreateNotification nreq r1]"
    using CreateNotification_keeps(1) [of lib env c nreq w] n by simp
  show ?thesis
  proof (cases r1)
    case (Inl e)
    with n c1 have "CreateNotification lib env c nreq w = (Inl e, w1)
        \<and> P = (Inl (WrapError ''failed to create SAP notification: '' e), w1)
        \<and> calls w1 = calls w @ [CalledCreateNotification nreq (Inl e)]"
      by (simp add: P_def ProcessMaintenanceOrderEvent_def Let_def nreq_def [symmetric])
    then show ?thesis
      by - (rule disjI1, (rule exI)+, assumption)
  next
    case (Inr nresp)
    define oreq where "oreq = ConvertMaintenanceOrderEventToOrderRequest lib event (nrs_Notification nresp)"
    have on: "orq_MaintenanceNotification oreq = nrs_Notification nresp"
      by (simp add: oreq_def order_request_notification)
    from n Inr have n': "CreateNotification lib env c nreq w = (Inr nresp, w1)" by simp
    obtain r2 w2 where o: "CreateOrder lib env c oreq w1 = (r2, w2)"
      by (cases "CreateOrder lib env c oreq w1")
    have c2: "calls w2 = calls w @ [CalledCreateNotification nreq (Inr nresp), CalledCreateOrder oreq r2]"
      using CreateOrder_keeps(1) [of lib env c oreq w1] o c1 Inr by simp
    show ?thesis
    proof (cases r2)
      case (Inl e)
      with n' o c2 have "CreateOrder lib env c oreq w1 = (Inl e, w2)
        \<and> P = (Inl (WrapError ''failed to create SAP order: '' e), w2)
        \<and> calls w2 = calls w @ [CalledCreateNotification nreq (Inr nresp),
                                  CalledCreateOrder oreq (Inl e)]"
        by (simp add: P_def ProcessMaintenanceOrderEvent_def Let_def nreq_def [symmetric]
              oreq_def [symmetric])
      with n' on oreq_def have "CreateNotification lib env c nreq w = (Inr nresp, w1)
        \<and> oreq = ConvertMaintenanceOrderEventToOrderRequest lib event (nrs_Notification nresp)
        \<and> orq_MaintenanceNotification oreq = nrs_Notification nresp
        \<and> CreateOrder lib env c oreq w1 = (Inl e, w2)
        \<and> P = (Inl (WrapError ''failed to create SAP order: '' e), w2)
        \<and> calls w2 = calls w @ [CalledCreateNotification nreq (Inr nresp),
                                  CalledCreateOrder oreq (Inl e)]"
        by simp
      then show ?thesis
        by - (rule disjI2, rule disjI1, (rule exI)+, assumption)
    next
      case oresp: (Inr oresp)
      from o oresp have o': "CreateOrder lib env c oreq w1 = (Inr oresp, w2)" by simp
      obtain r3 w3 where g: "GetOrder lib env c (ors_MaintenanceOrder oresp) w2 = (r3, w3)"
        by (cases "GetOrder lib env c (ors_MaintenanceOrder oresp) w2")
      have c3: "calls w3 = calls w @ [CalledCreateNotification nreq (Inr nresp),
                  CalledCreateOrder oreq (Inr oresp), CalledGetOrder (ors_MaintenanceOrder oresp) r3]"
        using GetOrder_keeps(1) [of lib env c "ors_MaintenanceOrder oresp" w2] g c2 oresp by simp
      show ?thesis
      proof (cases r3)
        case (Inl e)
        with n' o' g c3 have "GetOrder lib env c (ors_MaintenanceOrder oresp) w2 = (Inl e, w3)
          \<and> P = (Inl (WrapError ''failed to verify order creation: '' e), w3)
          \<and> calls w3 = calls w @ [CalledCreateNotification nreq (Inr nresp),
                CalledCreateOrder oreq (Inr oresp), CalledGetOrder (ors_MaintenanceOrder oresp) (Inl e)]"
          by (simp add: P_def ProcessMaintenanceOrderEvent_def Let_def nreq_def [symmetric]
                oreq_def [symmetric])
        with n' on o' oreq_def have "CreateNotification lib env c nreq w = (Inr nresp, w1)
          \<and> oreq = ConvertMaintenanceOrderEventToOrderRequest lib event (nrs_Notification nresp)
          \<and> orq_MaintenanceNotification oreq = nrs_Notification nresp
          \<and> CreateOrder lib env c oreq w1 = (Inr oresp, w2)
          \<and> GetOrder lib env c (ors_MaintenanceOrder oresp) w2 = (Inl e, w3)
          \<and> P = (Inl (WrapError ''failed to verify order creation: '' e), w3)
          \<and> calls w3 = calls w @ [CalledCreateNotification nreq (Inr nresp),
                CalledCreateOrder oreq (Inr oresp), CalledGetOrder (ors_MaintenanceOrder oresp) (Inl e)]"
          by simp
        then show ?thesis
          by - (rule disjI2, rule disjI2, rule disjI1, (rule exI)+, assumption)
      next
        case vresp: (Inr vresp)
        from g vresp have g': "GetOrder lib env c (ors_MaintenanceOrder oresp) w2 = (Inr vresp, w3)"
          by simp
        show ?thesis
        proof (cases "ors_MaintenanceOrder vresp = ors_MaintenanceOrder oresp")
          case False
          with n' o' g' c3 vresp have
            "P = (Inl (ErrorString (''order verification failed: expected '' @ ors_MaintenanceOrder oresp
                                      @ '', got '' @ ors_MaintenanceOrder vresp)), w3)
           \<and> calls w3 = calls w @ [CalledCreateNotification nreq (Inr nresp),
                CalledCreateOrder oreq (Inr oresp), CalledGetOrder (ors_MaintenanceOrder oresp) (Inr vresp)]"
            by (simp add: P_def ProcessMaintenanceOrderEvent_def Let_def nreq_def [symmetric]
                  oreq_def [symmetric])
          with False n' on o' g' oreq_def have
            "CreateNotification lib env c nreq w = (Inr nresp, w1)
           \<and> oreq = ConvertMaintenanceOrderEventToOrderRequest lib event (nrs_Notification nresp)
           \<and> orq_MaintenanceNotification oreq = nrs_Notification nresp
           \<and> CreateOrder lib env c oreq w1 = (Inr oresp, w2)
           \<and> GetOrder lib env c (ors_MaintenanceOrder oresp) w2 = (Inr vresp, w3)
           \<and> ors_MaintenanceOrder vresp \<noteq> ors_MaintenanceOrder oresp
           \<and> P = (Inl (ErrorString (''order verification failed: expected '' @ ors_MaintenanceOrder oresp
                                      @ '', got '' @ ors_MaintenanceOrder vresp)), w3)
           \<and> calls w3 = calls w @ [CalledCreateNotification nreq (Inr nresp),
                CalledCreateOrder oreq (Inr oresp), CalledGetOrder (ors_MaintenanceOrder oresp) (Inr vresp)]"
            by simp
          then show ?thesis
            by - (rule disjI2, rule disjI2, rule disjI2, rule disjI1, (rule exI)+, assumption)
        next
          case True
          obtain t w4 where t: "now env w3 = (t, w4)" by (cases "now env w3")
          have "calls w4 = calls w3" using now_keeps(2) [of env w3] t by simp
          with True n' o' g' c3 vresp t have
            "P = (Inr \<lparr>mor_OrderID = ors_MaintenanceOrder oresp,
                        mor_NotificationID = nrs_Notification nresp,
                        mor_Status = ors_OrderStatus vresp,
                        mor_Message = ''Maintenance order created successfully'',
                        mor_CreatedAt = t\<rparr>, w4)
           \<and> calls w4 = calls w @ [CalledCreateNotification nreq (Inr nresp),
                CalledCreateOrder oreq (Inr oresp), CalledGetOrder (ors_MaintenanceOrder oresp) (Inr vresp)]"
            by (simp add: P_def ProcessMaintenanceOrderEvent_def Let_def nreq_def [symmetric]
                  oreq_def [symmetric])
          with True n' on o' g' t oreq_def have
            "CreateNotification lib env c nreq w = (Inr nresp, w1)
           \<and> oreq = ConvertMaintenanceOrderEventToOrderRequest lib event (nrs_Notification nresp)
           \<and> orq_MaintenanceNotification oreq = nrs_Notification nresp
           \<and> CreateOrder lib env c oreq w1 = (Inr oresp, w2)
           \<and> GetOrder lib env c (ors_MaintenanceOrder oresp) w2 = (Inr vresp, w3)
           \<and> ors_MaintenanceOrder vresp = ors_MaintenanceOrder oresp
           \<and> now env w3 = (t, w4)
           \<and> P = (Inr \<lparr>mor_OrderID = ors_MaintenanceOrder oresp,
                        mor_NotificationID = nrs_Notification nresp,
                        mor_Status = ors_OrderStatus vresp,
                        mor_Message = ''Maintenance order created successfully'',
                        mor_CreatedAt = t\<rparr>, w4)
           \<and> calls w4 = calls w @ [CalledCreateNotification nreq (Inr nresp),
                CalledCreateOrder oreq (Inr oresp), CalledGetOrder (ors_MaintenanceOrder oresp) (Inr vresp)]"
            by simp
          then show ?thesis
            by - (rule disjI2, rule disjI2, rule disjI2, rule disjI2, (rule exI)+, assumption)
        qed
      qed
    qed
  qed
qed

lemma live_is_live: "\<not> cl_simulatorMode (NewClient live_config)"
  by (simp add: NewClient_def live_config_def demo_config_def)

lemma mismatch_run:
  "fst (ProcessMaintenanceOrderEvent stub_lib scripted_env (NewClient live_config) demo_event
          (world0 [Replied 201 ''200000123'', Replied 201 ''400000001,CRTD'',
                   Replied 200 ''400000002,CRTD'']))
     = Inl (ErrorString ''order verification failed: expected 400000001, got 400000002'')"
  by (simp add: ProcessMaintenanceOrderEvent_def CreateNotification_def CreateOrder_def GetOrder_def
        live_is_live stub_lib_def scripted_env_def world0_def do_http_def called_def Let_def stub_order_def)

lemma mismatch_requests:
  "map rq_method (sent (snd (ProcessMaintenanceOrderEvent stub_lib scripted_env (NewClient live_config)
          demo_event (world0 [Replied 201 ''200000123'', Replied 201 ''400000001,CRTD'',
                   Replied 200 ''400000002,CRTD'']))))
     = [''POST'', ''POST'', ''GET'']"
  by (simp add: ProcessMaintenanceOrderEvent_def CreateNotification_def CreateOrder_def GetOrder_def
        live_is_live stub_lib_def scripted_env_def world0_def do_http_def called_def Let_def stub_order_def
        Header_Set_def)

theorem submission_call_sequence_witness:
  "fst (ProcessMaintenanceOrderEvent stub_lib scripted_env (NewClient live_config) demo_event
          (world0 [Replied 201 ''200000123'', Replied 201 ''400000001,CRTD'',
                   Replied 200 ''400000002,CRTD'']))
     = Inl (ErrorString ''order verification failed: expected 400000001, got 400000002'')
   \<and> length (calls (snd (ProcessMaintenanceOrderEvent stub_lib scripted_env (NewClient live_config)
          demo_event (world0 [Replied 201 ''200000123'', Replied 201 ''400000001,CRTD'',
                   Replied 200 ''400000002,CRTD''])))) = 3
   \<and> map rq_method (sent (snd (ProcessMaintenanceOrderEvent stub_lib scripted_env (NewClient live_config)
          demo_event (world0 [Replied 201 ''200000123'', Replied 201 ''400000001,CRTD'',
                   Replied 200 ''400000002,CRTD'']))))
     = [''POST'', ''POST'', ''GET'']"
  using submission_call_sequence [of stub_lib scripted_env "NewClient live_config" demo_event
          "world0 [Replied 201 ''200000123'', Replied 201 ''400000001,CRTD'',
                   Replied 200 ''400000002,CRTD'']"]
        mismatch_run mismatch_requests
  by (auto simp: world0_def)

subsection \<open>Errors of a submission\<close>

lemma refused_notification:
  "fst (CreateNotification stub_lib scripted_env (NewClient live_config)
          (ConvertMaintenanceOrderEventToNotificationRequest demo_event) (world0 []))
     = Inl (WrapError ''failed to send request: '' (ErrorString ''connection refused''))"
  by (simp add: CreateNotification_def live_is_live stub_lib_def scripted_env_def world0_def
        do_http_def called_def Let_def)

lemma refused_submission:
  "fst (ProcessMaintenanceOrderEvent stub_lib scripted_env (NewClient live_config) demo_event (world0 []))
     = Inl (WrapError ''failed to create SAP notification: ''
             (WrapError ''failed to send request: '' (ErrorString ''connection refused'')))"
  by (simp add: ProcessMaintenanceOrderEvent_def CreateNotification_def live_is_live stub_lib_def
        scripted_env_def world0_def do_http_def called_def Let_def)

text \<open>
  C7 as stated fails: a step's error is not returned as it is. With the back end refusing
  the connection, notification creation fails with one error and the submission returns
  another, the first wrapped under a prefix.
\<close>

theorem submission_error_unmodified_counterexample:
  "fst (CreateNotification stub_lib scripted_env (NewClient live_config)
          (ConvertMaintenanceOrderEventToNotificationRequest demo_event) (world0 []))
     = Inl (WrapError ''failed to send request: '' (ErrorString ''connection refused''))
   \<and> fst (ProcessMaintenanceOrderEvent stub_lib scripted_env (NewClient live_config) demo_event (world0 []))
     \<noteq> Inl (WrapError ''failed to send request: '' (ErrorString ''connection refused''))"
  by (simp add: refused_notification refused_submission)

text \<open>
  C7, amended: when one of the three steps fails, the submission returns that step's error
  wrapped under a prefix that names the step (\<^verbatim>\<open>failed to create SAP notification: \<close>,
  \<^verbatim>\<open>failed to create SAP order: \<close>, \<^verbatim>\<open>failed to verify order creation: \<close>); the step's
  own error is the wrapped cause, and the message is the prefix followed by its message.
\<close>

theorem submission_error_wrapped:
  fixes lib env c event w
  defines "nreq \<equiv> ConvertMaintenanceOrderEventToNotificationRequest event"
  defines "P \<equiv> ProcessMaintenanceOrderEvent lib env c event w"
  shows
   "(\<forall>e. fst (CreateNotification lib env c nreq w) = Inl e \<longrightarrow>
          fst P = Inl (WrapError ''failed to create SAP notification: '' e))
  \<and> (\<forall>nresp w1 e.
          CreateNotification lib env c nreq w = (Inr nresp, w1)
        \<and> fst (CreateOrder lib env c
                  (ConvertMaintenanceOrderEventToOrderRequest lib event (nrs_Notification nresp)) w1) = Inl e
        \<longrightarrow> fst P = Inl (WrapError ''failed to create SAP order: '' e))
  \<and> (\<forall>nresp w1 oresp w2 e.
          CreateNotification lib env c nreq w = (Inr nresp, w1)
        \<and> CreateOrder lib env c
             (ConvertMaintenanceOrderEventToOrderRequest lib event (nrs_Notification nresp)) w1
            = (Inr oresp, w2)
        \<and> fst (GetOrder lib env c (ors_MaintenanceOrder oresp) w2) = Inl e
        \<longrightarrow> fst P = Inl (WrapError ''failed to verify order creation: '' e))
  \<and> (\<forall>p e. Unwrap (WrapError p e) = Some e \<and> Error (WrapError p e) = p @ Error e)"
  unfolding P_def nreq_def ProcessMaintenanceOrderEvent_def
  by (auto simp: Let_def split: prod.splits sum.splits)

lemma accepted_notification:
  "\<exists>w1. CreateNotification stub_lib scripted_env (NewClient live_config)
          (ConvertMaintenanceOrderEventToNotificationRequest demo_event) (world0 (Replied 201 ''200000123'' # script))
         = (Inr \<lparr>nrs_Notification = ''200000123'', nrs_Description = [], nrs_Plant = []\<rparr>, w1)
       \<and> ext w1 = script"
  by (simp add: CreateNotification_def live_is_live stub_lib_def scripted_env_def world0_def
        do_http_def called_def Let_def)

lemma accepted_order:
  "ext w1 = Replied 201 ''400000001,CRTD'' # script \<Longrightarrow>
   \<exists>w2. CreateOrder stub_lib scripted_env (NewClient live_config) oreq w1
         = (Inr (stub_order ''400000001'' ''CRTD''), w2) \<and> ext w2 = script"
  by (simp add: CreateOrder_def live_is_live stub_lib_def scripted_env_def
        do_http_def called_def Let_def)

lemma refused_order:
  "ext w1 = [] \<Longrightarrow>
   fst (CreateOrder stub_lib scripted_env (NewClient live_config) oreq w1)
     = Inl (WrapError ''failed to send request: '' (ErrorString ''connection refused''))"
  by (simp add: CreateOrder_def live_is_live stub_lib_def scripted_env_def
        do_http_def called_def Let_def)

lemma refused_read:
  "ext w2 = [] \<Longrightarrow>
   fst (GetOrder stub_lib scripted_env (NewClient live_config) orderID w2)
     = Inl (WrapError ''failed to send request: '' (ErrorString ''connection refused''))"
  by (simp add: GetOrder_def live_is_live stub_lib_def scripted_env_def
        do_http_def called_def Let_def)

theorem submission_error_wrapped_witness:
  "fst (ProcessMaintenanceOrderEvent stub_lib scripted_env (NewClient live_config) demo_event (world0 []))
     = Inl (WrapError ''failed to create SAP notification: ''
             (WrapError ''failed to send request: '' (ErrorString ''connection refused'')))
   \<and> fst (ProcessMaintenanceOrderEvent stub_lib scripted_env (NewClient live_config) demo_event
            (world0 [Replied 201 ''200000123'']))
     = Inl (WrapError ''failed to create SAP order: ''
             (WrapError ''failed to send request: '' (ErrorString ''connection refused'')))
   \<and> fst (ProcessMaintenanceOrderEvent stub_lib scripted_env (NewClient live_config) demo_event
            (world0 [Replied 201 ''200000123'', Replied 201 ''400000001,CRTD'']))
     = Inl (WrapError ''failed to verify order creation: ''
             (WrapError ''failed to send request: '' (ErrorString ''connection refused'')))"
proof (intro conjI)
  show "fst (ProcessMaintenanceOrderEvent stub_lib scripted_env (NewClient live_config) demo_event (world0 []))
     = Inl (WrapError ''failed to create SAP notification: ''
             (WrapError ''failed to send request: '' (ErrorString ''connection refused'')))"
    using submission_error_wrapped [of stub_lib scripted_env "NewClient live_config" demo_event "world0 []"]
          refused_notification
    by simp
next
  obtain w1 where n: "CreateNotification stub_lib scripted_env (NewClient live_config)
          (ConvertMaintenanceOrderEventToNotificationRequest demo_event) (world0 [Replied 201 ''200000123''])
         = (Inr \<lparr>nrs_Notification = ''200000123'', nrs_Description = [], nrs_Plant = []\<rparr>, w1)"
    and e1: "ext w1 = []"
    using accepted_notification [of "[]"] by blast
  show "fst (ProcessMaintenanceOrderEvent stub_lib scripted_env (NewClient live_config) demo_event
            (world0 [Replied 201 ''200000123'']))
     = Inl (WrapError ''failed to create SAP order: ''
             (WrapError ''failed to send request: '' (ErrorString ''connection refused'')))"
    using submission_error_wrapped [of stub_lib scripted_env "NewClient live_config" demo_event
            "world0 [Replied 201 ''200000123'']"] n refused_order [OF e1]
    by simp
next
  obtain w1 where n: "CreateNotification stub_lib scripted_env (NewClient live_config)
          (ConvertMaintenanceOrderEventToNotificationRequest demo_event)
          (world0 [Replied 201 ''200000123'', Replied 201 ''400000001,CRTD''])
         = (Inr \<lparr>nrs_Notification = ''200000123'', nrs_Description = [], nrs_Plant = []\<rparr>, w1)"
    and e1: "ext w1 = [Replied 201 ''400000001,CRTD'']"
    using accepted_notification [of "[Replied 201 ''400000001,CRTD'']"] by blast
  obtain w2 where o: "CreateOrder stub_lib scripted_env (NewClient live_config)
          (ConvertMaintenanceOrderEventToOrderRequest stub_lib demo_event ''200000123'') w1
         = (Inr (stub_order ''400000001'' ''CRTD''), w2)"
    and e2: "ext w2 = []"
    using accepted_order [OF e1] by blast
  show "fst (ProcessMaintenanceOrderEvent stub_lib scripted_env (NewClient live_config) demo_event
            (world0 [Replied 201 ''200000123'', Replied 201 ''400000001,CRTD'']))
     = Inl (WrapError ''failed to verify order creation: ''
             (WrapError ''failed to send request: '' (ErrorString ''connection refused'')))"
    using submission_error_wrapped [of stub_lib scripted_env "NewClient live_config" demo_event
            "world0 [Replied 201 ''200000123'', Replied 201 ''400000001,CRTD'']"] n o
          refused_read [OF e2, of "''400000001''"]
    by (simp add: stub_order_def)
qed

subsection \<open>Status lookup through the handler\<close>

lemma Sprintf_d_404: "Sprintf_d 404 = ''404''"
  by code_simp

lemma GetMaintenanceOrderStatus_error:
  "fst (GetMaintenanceOrderStatus lib env c orderID w) = Inl err \<Longrightarrow>
   \<exists>e. err = WrapError ''failed to get order from SAP: '' e"
  by (auto simp: GetMaintenanceOrderStatus_def split: prod.splits sum.splits)

lemma GetMaintenanceOrder_never_not_found:
  "fst (GetMaintenanceOrder lib env c orderID w) \<noteq> ReplyError 404 body"
proof (cases "fst (GetMaintenanceOrderStatus lib env c orderID w)")
  case (Inl err)
  then obtain e where "err = WrapError ''failed to get order from SAP: '' e"
    using GetMaintenanceOrderStatus_error by blast
  then have "Error err \<noteq> ''SAP API returned status 404''" by simp
  with Inl show ?thesis
    by (auto simp: GetMaintenanceOrder_def split: prod.splits)
next
  case (Inr st)
  then show ?thesis
    by (auto simp: GetMaintenanceOrder_def split: prod.splits)
qed

text \<open>
  C6: an order that the back end reports absent should reach the caller as a not-found
  error and be answered with 404 and \<^verbatim>\<open>ORDER_NOT_FOUND\<close>. The code answers otherwise: with
  the back end replying 404 to the read, the client's error carries the body after the
  status, the service wraps it under its own prefix, and the handler's comparison with
  \<^verbatim>\<open>SAP API returned status 404\<close> fails, so the answer is 500 and \<^verbatim>\<open>RETRIEVAL_ERROR\<close>.
\<close>

theorem absent_order_is_not_reported_as_not_found:
  "fst (GetOrder stub_lib scripted_env (NewClient live_config) ''400000999''
          (world0 [Replied 404 ''Not Found'']))
     = Inl (ErrorString ''SAP API returned status 404: Not Found'')
   \<and> fst (GetMaintenanceOrder stub_lib scripted_env (NewClient live_config) ''400000999''
          (world0 [Replied 404 ''Not Found'']))
     = ReplyError 500 \<lparr>er_Error = ''Failed to retrieve maintenance order'',
                        er_Code = ''RETRIEVAL_ERROR'',
                        er_Details = Some ''failed to get order from SAP: SAP API returned status 404: Not Found''\<rparr>"
  by (simp add: GetMaintenanceOrder_def GetMaintenanceOrderStatus_def GetOrder_def live_is_live
        stub_lib_def scripted_env_def world0_def do_http_def called_def Let_def Sprintf_d_404)

subsection \<open>Translation of the order request\<close>

text \<open>
  C8: the order request built from an event and a notification id has the event's plant as
  planning plant (and as plant), the planned start and end formatted with the RFC3339
  layout when they are present and left empty otherwise, the given notification id as
  notification reference, the other order-level fields copied, and one operation line per
  operation of the event, in the same order, whose duration is the operation's duration
  formatted with format \<^verbatim>\<open>'f'\<close>, precision \<open>-1\<close> (the fewest digits that parse back to the
  same value) and bit size 64.
\<close>

theorem order_request_translation:
  fixes lib event notificationID
  defines "req \<equiv> ConvertMaintenanceOrderEventToOrderRequest lib event notificationID"
  shows
   "orq_MaintenancePlanningPlant req = ev_Plant event
  \<and> orq_Plant req = ev_Plant event
  \<and> orq_MaintOrdBasicStartDateTime req =
       (case ev_PlannedStartTime event of Some t \<Rightarrow> time_Format lib t RFC3339 | None \<Rightarrow> '''')
  \<and> orq_MaintOrdBasicEndDateTime req =
       (case ev_PlannedEndTime event of Some t \<Rightarrow> time_Format lib t RFC3339 | None \<Rightarrow> '''')
  \<and> orq_MaintenanceNotification req = notificationID
  \<and> orq_MaintenanceOrderType req = ev_MaintenanceOrderType event
  \<and> orq_Description req = ev_Description event
  \<and> orq_Equipment req = ev_EquipmentID event
  \<and> orq_FunctionalLocation req = ev_FunctionalLocation event
  \<and> orq_Priority req = ev_Priority event
  \<and> length (orq_ToMaintenanceOrderOperation req) = length (ev_Operations event)
  \<and> (\<forall>i < length (ev_Operations event).
        orq_ToMaintenanceOrderOperation req ! i =
          \<lparr>oop_OperationText = op_Text (ev_Operations event ! i),
           oop_WorkCenter = op_WorkCenter (ev_Operations event ! i),
           oop_Plant = ev_Plant event,
           oop_OperationControlKey = ev_MaintenanceOrderType event,
           oop_OperationStandardDuration =
             FormatFloat lib (op_Duration (ev_Operations event ! i)) CHR ''f'' (- 1) 64,
           oop_OperationDurationUnit = op_DurationUnit (ev_Operations event ! i)\<rparr>)"
  unfolding req_def
  by (simp add: order_request_eq convert_operation_def)

theorem order_request_translation_witness:
  "0 < length (ev_Operations demo_event)
   \<and> ConvertMaintenanceOrderEventToOrderRequest stub_lib
        (demo_event\<lparr>ev_PlannedStartTime := Some \<lparr>unix_nano = 1755763200000000000, zone_offset = 0\<rparr>\<rparr>)
        ''200000123''
     = \<lparr>orq_MaintenanceOrderType = [], orq_Description = ''Replace pump seal'',
        orq_Equipment = ''10000045'', orq_FunctionalLocation = [], orq_Plant = ''1000'',
        orq_MaintenancePlanningPlant = ''1000'', orq_Priority = [],
        orq_MaintOrdBasicStartDateTime = ''2025-08-21T08:00:00Z'',
        orq_MaintOrdBasicEndDateTime = [],
        orq_MaintenanceNotification = ''200000123'',
        orq_ToMaintenanceOrderOperation =
          [\<lparr>oop_OperationText = ''Disassemble pump'', oop_WorkCenter = ''PUMP-WC01'',
            oop_Plant = ''1000'', oop_OperationControlKey = [],
            oop_OperationStandardDuration = ''4'', oop_OperationDurationUnit = ''H''\<rparr>]\<rparr>"
proof -
  let ?ev = "demo_event\<lparr>ev_PlannedStartTime := Some \<lparr>unix_nano = 1755763200000000000, zone_offset = 0\<rparr>\<rparr>"
  let ?req = "ConvertMaintenanceOrderEventToOrderRequest stub_lib ?ev ''200000123''"
  have len: "0 < length (ev_Operations ?ev)" by (simp add: demo_event_def)
  note t = order_request_translation [of stub_lib ?ev "''200000123''"]
  from t len have op0: "orq_ToMaintenanceOrderOperation ?req ! 0 =
        \<lparr>oop_OperationText = ''Disassemble pump'', oop_WorkCenter = ''PUMP-WC01'',
            oop_Plant = ''1000'', oop_OperationControlKey = [],
            oop_OperationStandardDuration = ''4'', oop_OperationDurationUnit = ''H''\<rparr>"
    by (simp add: demo_event_def stub_lib_def)
  from t have l1: "length (orq_ToMaintenanceOrderOperation ?req) = 1"
    by (simp add: demo_event_def)
  from l1 op0 have ops: "orq_ToMaintenanceOrderOperation ?req =
        [\<lparr>oop_OperationText = ''Disassemble pump'', oop_WorkCenter = ''PUMP-WC01'',
            oop_Plant = ''1000'', oop_OperationControlKey = [],
            oop_OperationStandardDuration = ''4'', oop_OperationDurationUnit = ''H''\<rparr>]"
    by (cases "orq_ToMaintenanceOrderOperation ?req") auto
  have "?req = \<lparr>orq_MaintenanceOrderType = orq_MaintenanceOrderType ?req,
      orq_Description = orq_Description ?req, orq_Equipment = orq_Equipment ?req,
      orq_FunctionalLocation = orq_FunctionalLocation ?req, orq_Plant = orq_Plant ?req,
      orq_MaintenancePlanningPlant = orq_MaintenancePlanningPlant ?req,
      orq_Priority = orq_Priority ?req,
      orq_MaintOrdBasicStartDateTime = orq_MaintOrdBasicStartDateTime ?req,
      orq_MaintOrdBasicEndDateTime = orq_MaintOrdBasicEndDateTime ?req,
      orq_MaintenanceNotification = orq_MaintenanceNotification ?req,
      orq_ToMaintenanceOrderOperation = orq_ToMaintenanceOrderOperation ?req\<rparr>"
    by simp
  also have "\<dots> = \<lparr>orq_MaintenanceOrderType = [], orq_Description = ''Replace pump seal'',
        orq_Equipment = ''10000045'', orq_FunctionalLocation = [], orq_Plant = ''1000'',
        orq_MaintenancePlanningPlant = ''1000'', orq_Priority = [],
        orq_MaintOrdBasicStartDateTime = ''2025-08-21T08:00:00Z'',
        orq_MaintOrdBasicEndDateTime = [],
        orq_MaintenanceNotification = ''200000123'',
        orq_ToMaintenanceOrderOperation =
          [\<lparr>oop_OperationText = ''Disassemble pump'', oop_WorkCenter = ''PUMP-WC01'',
            oop_Plant = ''1000'', oop_OperationControlKey = [],
            oop_OperationStandardDuration = ''4'', oop_OperationDurationUnit = ''H''\<rparr>]\<rparr>"
    using t ops by (simp add: demo_event_def stub_lib_def)
  finally show ?thesis using len by simp
qed

subsection \<open>Runs of the monitor\<close>

lemma cancel_keeps [simp]:
  "ext (cancel e w) = ext w" "sent (cancel e w) = sent w" "calls (cancel e w) = calls w"
  "handled (cancel e w) = handled w"
  "ctx_err (cancel e w) = Some (case ctx_err w of None \<Rightarrow> e | Some e0 \<Rightarrow> e0)"
  by (simp_all add: cancel_def split: option.splits)

lemma cancel_in_flight_keeps [simp]:
  "ext (cancel_in_flight cn w) = ext w" "sent (cancel_in_flight cn w) = sent w"
  "calls (cancel_in_flight cn w) = calls w" "handled (cancel_in_flight cn w) = handled w"
  by (simp_all add: cancel_in_flight_def split: option.splits)

lemma GetMaintenanceOrderStatus_keeps:
  "handled (snd (GetMaintenanceOrderStatus lib env c orderID w)) = handled w"
  "ctx_err (snd (GetMaintenanceOrderStatus lib env c orderID w)) = ctx_err w"
  "length (calls (snd (GetMaintenanceOrderStatus lib env c orderID w))) = Suc (length (calls w))"
  using GetOrder_keeps [of lib env c orderID w]
  by (simp_all add: GetMaintenanceOrderStatus_def case_prod_beta split: sum.splits)

lemma fetches_keeps:
  "fetches lib env c orderID cns w = (rs, w1) \<Longrightarrow>
     handled w1 = handled w \<and> length (calls w1) = length (calls w) + length cns
   \<and> length rs = length cns"
proof (induction cns arbitrary: w rs)
  case Nil
  then show ?case by simp
next
  case (Cons cn cns)
  obtain r wa where g: "GetMaintenanceOrderStatus lib env c orderID w = (r, wa)"
    by (cases "GetMaintenanceOrderStatus lib env c orderID w")
  obtain rs' where f: "fetches lib env c orderID cns (cancel_in_flight cn wa) = (rs', w1)"
    and rs: "rs = r # rs'"
    using Cons.prems g by (auto split: prod.splits)
  from GetMaintenanceOrderStatus_keeps [of lib env c orderID w] g
  have "handled wa = handled w" "length (calls wa) = Suc (length (calls w))" by simp_all
  with Cons.IH [OF f] rs show ?case by simp
qed

lemma monitor_skips:
  "fetches lib env c orderID cns w = (rs, w1) \<Longrightarrow> list_all keeps_polling rs \<Longrightarrow>
   MonitorOrderStatus lib env c orderID callback (map TickerC cns @ rest) w
     = MonitorOrderStatus lib env c orderID callback rest w1"
proof (induction cns arbitrary: w rs)
  case Nil
  then show ?case by simp
next
  case (Cons cn cns)
  obtain r wa where g: "GetMaintenanceOrderStatus lib env c orderID w = (r, wa)"
    by (cases "GetMaintenanceOrderStatus lib env c orderID w")
  obtain rs' where f: "fetches lib env c orderID cns (cancel_in_flight cn wa) = (rs', w1)"
    and rs: "rs = r # rs'"
    using Cons.prems(1) g by (auto split: prod.splits)
  from Cons.prems(2) rs have k: "keeps_polling r" and ks: "list_all keeps_polling rs'" by simp_all
  have "MonitorOrderStatus lib env c orderID callback (TickerC cn # map TickerC cns @ rest) w
          = MonitorOrderStatus lib env c orderID callback (map TickerC cns @ rest) (cancel_in_flight cn wa)"
    using g k by (cases r) (simp_all add: keeps_polling_def Let_def)
  with Cons.IH [OF f ks] show ?case by simp
qed

lemma scripted_fetch_failure:
  "ext w = Replied 500 body # script \<Longrightarrow>
   \<exists>err w1. GetMaintenanceOrderStatus stub_lib scripted_env (NewClient live_config) orderID w = (Inl err, w1)
     \<and> ext w1 = script \<and> ctx_err w1 = ctx_err w"
  by (simp add: GetMaintenanceOrderStatus_def GetOrder_def live_is_live stub_lib_def scripted_env_def
        do_http_def called_def Let_def)

lemma scripted_fetch_REL:
  "ext w = Replied 200 ''400000001,REL'' # script \<Longrightarrow>
   \<exists>status w1. GetMaintenanceOrderStatus stub_lib scripted_env (NewClient live_config) orderID w = (Inr status, w1)
     \<and> mos_Status status = ''REL'' \<and> ext w1 = script \<and> ctx_err w1 = ctx_err w"
  by (simp add: GetMaintenanceOrderStatus_def GetOrder_def live_is_live stub_lib_def scripted_env_def
        do_http_def called_def Let_def stub_order_def ConvertSAPOrderResponseToStatus_def)

lemma scripted_fetch_TECO:
  "ext w = Replied 200 ''400000001,TECO'' # script \<Longrightarrow>
   \<exists>status w1. GetMaintenanceOrderStatus stub_lib scripted_env (NewClient live_config) orderID w = (Inr status, w1)
     \<and> mos_Status status = ''TECO'' \<and> ext w1 = script \<and> ctx_err w1 = ctx_err w"
  by (simp add: GetMaintenanceOrderStatus_def GetOrder_def live_is_live stub_lib_def scripted_env_def
        do_http_def called_def Let_def stub_order_def ConvertSAPOrderResponseToStatus_def)

lemma simulated_fetch_TECO:
  "\<exists>status w1. GetMaintenanceOrderStatus stub_lib clock_env (NewClient demo_config) ''400000006'' w
       = (Inr status, w1)
     \<and> mos_Status status = ''TECO'' \<and> ctx_err w1 = ctx_err w \<and> handled w1 = handled w"
  by (simp add: GetMaintenanceOrderStatus_def sim_GetOrder demo_is_simulated Let_def
        ConvertSAPOrderResponseToStatus_def mock_status_def split: prod.splits)

text \<open>
  C4: let the fetches of the first ticks each fail or give a status that is not terminal,
  and let the fetch of the next tick give \<^verbatim>\<open>TECO\<close> or \<^verbatim>\<open>CLSD\<close>. Then the monitor passes
  over the first ticks, calls the callback once, with that first terminal status, returns
  what the callback returned (its error, or \<^verbatim>\<open>nil\<close>), and has made one read per tick up to
  that one and none after it, whatever ticks or cancellations would follow.
\<close>

theorem monitor_reaches_terminal:
  assumes "fetches lib env c orderID cns w = (rs, w1)"
    and "list_all keeps_polling rs"
    and "GetMaintenanceOrderStatus lib env c orderID w1 = (Inr status, w2)"
    and "mos_Status status = ''TECO'' \<or> mos_Status status = ''CLSD''"
  shows "fst (MonitorOrderStatus lib env c orderID (Some cb) (map TickerC cns @ TickerC cn # rest) w)
           = Returned (fst (cb status (ext w2)))
       \<and> map fst (handled (snd (MonitorOrderStatus lib env c orderID (Some cb)
                                   (map TickerC cns @ TickerC cn # rest) w)))
           = map fst (handled w) @ [status]
       \<and> calls (snd (MonitorOrderStatus lib env c orderID (Some cb)
                        (map TickerC cns @ TickerC cn # rest) w)) = calls w2
       \<and> length (calls w2) = length (calls w) + length cns + 1"
proof -
  have skip: "MonitorOrderStatus lib env c orderID (Some cb) (map TickerC cns @ TickerC cn # rest) w
          = MonitorOrderStatus lib env c orderID (Some cb) (TickerC cn # rest) w1"
    using monitor_skips [OF assms(1,2)] .
  obtain r e' where cb: "cb status (ext w2) = (r, e')" by (cases "cb status (ext w2)")
  have last: "MonitorOrderStatus lib env c orderID (Some cb) (TickerC cn # rest) w1
          = (Returned r, (cancel_in_flight cn w2)\<lparr>ext := e',
               handled := handled w2 @ [(status, ctx_err (cancel_in_flight cn w2))]\<rparr>)"
    using assms(3,4) cb by (cases r) (auto simp: Let_def invoke_def)
  have h: "handled w2 = handled w" and l: "length (calls w2) = length (calls w) + length cns + 1"
    using fetches_keeps [OF assms(1)] GetMaintenanceOrderStatus_keeps [of lib env c orderID w1] assms(3)
    by simp_all
  show ?thesis
    using skip last cb h l by simp
qed

theorem monitor_reaches_terminal_witness:
  "fst (MonitorOrderStatus stub_lib scripted_env (NewClient live_config) ''400000001'' (Some notify_ok)
          [TickerC None, TickerC None, TickerC None, TickerC None] (world0 poll_script))
     = Returned None
   \<and> map mos_Status (map fst
        (handled (snd (MonitorOrderStatus stub_lib scripted_env (NewClient live_config) ''400000001''
          (Some notify_ok) [TickerC None, TickerC None, TickerC None, TickerC None] (world0 poll_script)))))
     = [''TECO'']
   \<and> length (calls (snd (MonitorOrderStatus stub_lib scripted_env (NewClient live_config) ''400000001''
          (Some notify_ok) [TickerC None, TickerC None, TickerC None, TickerC None] (world0 poll_script))))
     = 3
   \<and> fst (MonitorOrderStatus stub_lib scripted_env (NewClient live_config) ''400000001'' (Some notify_fails)
          [TickerC None, TickerC None, TickerC None, TickerC None] (world0 poll_script))
     = Returned (Some (ErrorString ''digital twin unreachable''))"
proof -
  let ?c = "NewClient live_config"
  obtain err wa where f1: "GetMaintenanceOrderStatus stub_lib scripted_env ?c ''400000001'' (world0 poll_script)
        = (Inl err, wa)"
    and ea: "ext wa = [Replied 200 ''400000001,REL'', Replied 200 ''400000001,TECO'',
                       Replied 200 ''400000001,CLSD'']"
    using scripted_fetch_failure [of "world0 poll_script" "''Internal Server Error''" _ "''400000001''"]
    by (auto simp: world0_def poll_script_def)
  obtain st1 wb where f2: "GetMaintenanceOrderStatus stub_lib scripted_env ?c ''400000001'' wa = (Inr st1, wb)"
    and s1: "mos_Status st1 = ''REL''"
    and eb: "ext wb = [Replied 200 ''400000001,TECO'', Replied 200 ''400000001,CLSD'']"
    using scripted_fetch_REL [OF ea] by blast
  obtain st2 wc where f3: "GetMaintenanceOrderStatus stub_lib scripted_env ?c ''400000001'' wb = (Inr st2, wc)"
    and s2: "mos_Status st2 = ''TECO''"
    using scripted_fetch_TECO [OF eb] by blast
  have fs: "fetches stub_lib scripted_env ?c ''400000001'' [None, None] (world0 poll_script)
              = ([Inl err, Inr st1], wb)"
    using f1 f2 by (simp add: cancel_in_flight_def)
  have ks: "list_all keeps_polling [Inl err, Inr st1]"
    using s1 by (simp add: keeps_polling_def)
  have fin: "mos_Status st2 = ''TECO'' \<or> mos_Status st2 = ''CLSD''"
    using s2 by simp
  note ok = monitor_reaches_terminal [OF fs ks f3 fin, of notify_ok None "[TickerC None]"]
  note ko = monitor_reaches_terminal [OF fs ks f3 fin, of notify_fails None "[TickerC None]"]
  show ?thesis
    using ok ko s2 by (simp add: notify_ok_def notify_fails_def world0_def del: MonitorOrderStatus.simps)
qed

text \<open>
  C5 as stated fails: a cancellation that arrives while a fetch is in flight is not looked
  at before the callback. With the simulator, which never consults the context, and an
  order id ending in 6, the context is cancelled during the first tick's fetch; the fetch
  gives \<^verbatim>\<open>TECO\<close>, the callback is called with the context already cancelled, and the
  monitor returns \<^verbatim>\<open>nil\<close>, not the cancellation.
\<close>

theorem monitor_cancelled_in_flight_counterexample:
  "fst (MonitorOrderStatus stub_lib clock_env (NewClient demo_config) ''400000006'' (Some notify_ok)
          [TickerC (Some Canceled)] (world0 0))
     = Returned None
   \<and> map snd (handled (snd (MonitorOrderStatus stub_lib clock_env (NewClient demo_config) ''400000006''
          (Some notify_ok) [TickerC (Some Canceled)] (world0 0))))
     = [Some Canceled]"
proof -
  obtain status w1 where f: "GetMaintenanceOrderStatus stub_lib clock_env (NewClient demo_config)
        ''400000006'' (world0 0) = (Inr status, w1)"
    and s: "mos_Status status = ''TECO''" and c: "ctx_err w1 = None" and h: "handled w1 = []"
    using simulated_fetch_TECO [of "world0 0"] by (auto simp: world0_def)
  show ?thesis
    using f s c h by (simp add: Let_def invoke_def notify_ok_def cancel_in_flight_def cancel_def)
qed

text \<open>
  C5, amended: when the \<^verbatim>\<open>select\<close> receives the cancellation, after any number of ticks
  whose fetches failed or were not terminal, the monitor returns the context's error
  without a further read and without calling the callback, whatever the next fetch would
  have given. This covers a cancellation that arrives while the loop waits and one that
  arrived during a fetch that failed or was not terminal.
\<close>

theorem monitor_cancelled_while_waiting:
  assumes "fetches lib env c orderID cns w = (rs, w1)"
    and "list_all keeps_polling rs"
  shows "fst (MonitorOrderStatus lib env c orderID callback (map TickerC cns @ CtxDone e # rest) w)
           = Returned (Some (case ctx_err w1 of None \<Rightarrow> e | Some e0 \<Rightarrow> e0))
       \<and> handled (snd (MonitorOrderStatus lib env c orderID callback
                          (map TickerC cns @ CtxDone e # rest) w)) = handled w
       \<and> calls (snd (MonitorOrderStatus lib env c orderID callback
                        (map TickerC cns @ CtxDone e # rest) w)) = calls w1
       \<and> length (calls w1) = length (calls w) + length cns"
  using monitor_skips [OF assms, of callback "CtxDone e # rest"] fetches_keeps [OF assms(1)]
  by (simp add: Let_def)

theorem monitor_cancelled_while_waiting_witness:
  "fst (MonitorOrderStatus stub_lib clock_env (NewClient demo_config) ''400000006'' (Some notify_ok)
          [CtxDone Canceled, TickerC None] (world0 0))
     = Returned (Some Canceled)
   \<and> handled (snd (MonitorOrderStatus stub_lib clock_env (NewClient demo_config) ''400000006''
          (Some notify_ok) [CtxDone Canceled, TickerC None] (world0 0))) = []
   \<and> calls (snd (MonitorOrderStatus stub_lib clock_env (NewClient demo_config) ''400000006''
          (Some notify_ok) [CtxDone Canceled, TickerC None] (world0 0))) = []
   \<and> fst (MonitorOrderStatus stub_lib scripted_env (NewClient live_config) ''400000001'' (Some notify_ok)
          [TickerC (Some Canceled), CtxDone (ErrorString ''context deadline exceeded''), TickerC None]
          (world0 (tl poll_script)))
     = Returned (Some Canceled)
   \<and> handled (snd (MonitorOrderStatus stub_lib scripted_env (NewClient live_config) ''400000001''
          (Some notify_ok)
          [TickerC (Some Canceled), CtxDone (ErrorString ''context deadline exceeded''), TickerC None]
          (world0 (tl poll_script)))) = []"
proof -
  have f0: "fetches stub_lib clock_env (NewClient demo_config) ''400000006'' [] (world0 0) = ([], world0 0)"
    by simp
  have k0: "list_all keeps_polling []" by simp
  note sim = monitor_cancelled_while_waiting [OF f0 k0, of "Some notify_ok" Canceled "[TickerC None]"]
  let ?c = "NewClient live_config"
  obtain st1 wb where f2: "GetMaintenanceOrderStatus stub_lib scripted_env ?c ''400000001''
        (world0 (tl poll_script)) = (Inr st1, wb)"
    and s1: "mos_Status st1 = ''REL''" and cb: "ctx_err wb = None"
    using scripted_fetch_REL [of "world0 (tl poll_script)" _ "''400000001''"]
    by (auto simp: world0_def poll_script_def)
  have fs: "fetches stub_lib scripted_env ?c ''400000001'' [Some Canceled] (world0 (tl poll_script))
              = ([Inr st1], cancel Canceled wb)"
    using f2 by (simp add: cancel_in_flight_def)
  have ks: "list_all keeps_polling [Inr st1]"
    using s1 by (simp add: keeps_polling_def)
  note live = monitor_cancelled_while_waiting [OF fs ks, of "Some notify_ok"
      "ErrorString ''context deadline exceeded''" "[TickerC None]"]
  show ?thesis
    using sim live cb by (simp add: world0_def del: MonitorOrderStatus.simps)
qed

text \<open>
  C10: the monitor reads the status only after receiving a tick. At loop entry it waits
  without a read; a cancellation received before the first tick makes it return the
  context's error with no read, no request and no callback; and any run in which a read,
  a request or a callback happened began with a tick.
\<close>

theorem monitor_no_fetch_before_first_tick:
  "MonitorOrderStatus lib env c orderID callback [] w = (Waiting, w)
 \<and> fst (MonitorOrderStatus lib env c orderID callback (CtxDone e # rest) w)
      = Returned (Some (case ctx_err w of None \<Rightarrow> e | Some e0 \<Rightarrow> e0))
 \<and> calls (snd (MonitorOrderStatus lib env c orderID callback (CtxDone e # rest) w)) = calls w
 \<and> sent (snd (MonitorOrderStatus lib env c orderID callback (CtxDone e # rest) w)) = sent w
 \<and> handled (snd (MonitorOrderStatus lib env c orderID callback (CtxDone e # rest) w)) = handled w
 \<and> (\<forall>evs. calls (snd (MonitorOrderStatus lib env c orderID callback evs w)) \<noteq> calls w
          \<or> sent (snd (MonitorOrderStatus lib env c orderID callback evs w)) \<noteq> sent w
          \<or> handled (snd (MonitorOrderStatus lib env c orderID callback evs w)) \<noteq> handled w
        \<longrightarrow> (\<exists>cn rest. evs = TickerC cn # rest))"
proof -
  have "\<exists>cn rest. evs = TickerC cn # rest"
    if "calls (snd (MonitorOrderStatus lib env c orderID callback evs w)) \<noteq> calls w
          \<or> sent (snd (MonitorOrderStatus lib env c orderID callback evs w)) \<noteq> sent w
          \<or> handled (snd (MonitorOrderStatus lib env c orderID callback evs w)) \<noteq> handled w" for evs
  proof (cases evs)
    case Nil
    with that show ?thesis by simp
  next
    case (Cons ev rest)
    with that show ?thesis by (cases ev) (simp_all add: Let_def)
  qed
  then show ?thesis by (simp add: Let_def)
qed

theorem monitor_no_fetch_before_first_tick_witness:
  "MonitorOrderStatus stub_lib clock_env (NewClient demo_config) ''400000006'' (Some notify_ok) [] (world0 0)
     = (Waiting, world0 0)
   \<and> fst (MonitorOrderStatus stub_lib clock_env (NewClient demo_config) ''400000006'' (Some notify_ok)
          [CtxDone Canceled] (world0 0)) = Returned (Some Canceled)
   \<and> calls (snd (MonitorOrderStatus stub_lib clock_env (NewClient demo_config) ''400000006''
          (Some notify_ok) [CtxDone Canceled] (world0 0))) = []
   \<and> handled (snd (MonitorOrderStatus stub_lib clock_env (NewClient demo_config) ''400000006''
          (Some notify_ok) [TickerC None] (world0 0))) \<noteq> handled (world0 0)
   \<and> (\<exists>cn rest. [TickerC None] = TickerC cn # rest)"
proof -
  note t = monitor_no_fetch_before_first_tick [of stub_lib clock_env "NewClient demo_config"
      "''400000006''" "Some notify_ok" "world0 0" Canceled "[]"]
  obtain status w1 where f: "GetMaintenanceOrderStatus stub_lib clock_env (NewClient demo_config)
        ''400000006'' (world0 0) = (Inr status, w1)"
    and s: "mos_Status status = ''TECO''" and h: "handled w1 = []"
    using simulated_fetch_TECO [of "world0 0"] by (auto simp: world0_def)
  have ran: "handled (snd (MonitorOrderStatus stub_lib clock_env (NewClient demo_config) ''400000006''
          (Some notify_ok) [TickerC None] (world0 0))) \<noteq> handled (world0 0)"
    using f s h by (simp add: Let_def invoke_def notify_ok_def cancel_in_flight_def world0_def)
  from t ran have "\<exists>cn rest. [TickerC None] = TickerC cn # rest" by blast
  with t ran show ?thesis by (simp add: world0_def del: MonitorOrderStatus.simps)
qed

end
